theory Spec2Isabelle
  imports Complex_Main "HOL-Library.List_Lexorder" "HOL-Library.Char_ord"
begin

section \<open>The telemetry backend: ingestion, capture sessions, alerts, CSV windows\<close>

text \<open>
  A shallow embedding of the backend server (the file that defines
  \<^verbatim>\<open>handleMQTTMessage\<close>, \<^verbatim>\<open>processTelemetryData\<close>, \<^verbatim>\<open>validateTelemetryData\<close>,
  \<^verbatim>\<open>normalizeTelemetryPayload\<close>, \<^verbatim>\<open>saveTelemetryData\<close>, \<^verbatim>\<open>updateFlaskState\<close>,
  \<^verbatim>\<open>checkAlerts\<close>, \<^verbatim>\<open>saveAlert\<close>, \<^verbatim>\<open>openCaptureSession\<close>, \<^verbatim>\<open>closeCaptureSession\<close>,
  \<^verbatim>\<open>exportTelemetryWindowToCSV\<close> and \<^verbatim>\<open>scheduleCsvAutoExport\<close>).

  Conventions of the embedding.
  \<^item> The module-level variables and the SQLite tables are the fields of one record
    \<open>state\<close>; every function takes the state and returns the new one.
  \<^item> A JSON number is modelled by its exact rational value. \<^verbatim>\<open>JSON.parse\<close> never yields
    NaN; the only NaN of the code is the number an \<^verbatim>\<open>undefined\<close> operand converts to in a
    comparison, which \<open>lt_num\<close> and \<open>gt_num\<close> write out.
  \<^item> The fields of a message have the kinds of the inbound message contract (strings,
    integers, numbers), or are \<^verbatim>\<open>null\<close>, or are absent. Keys the code never reads are copied
    by the object spread and are not part of the record.
  \<^item> The store is available: an \<^verbatim>\<open>INSERT\<close> fails only on the \<^verbatim>\<open>UNIQUE\<close> constraint of
    \<^verbatim>\<open>telemetry.msg_id\<close>. SQLite runs the statements of the one connection in the order
    of the calls. The completion callbacks of \<^verbatim>\<open>saveTelemetryData\<close> and \<^verbatim>\<open>saveAlert\<close> are run
    at the place of the call. The completion callback of the insert of
    \<^verbatim>\<open>openCaptureSession\<close>, which alone sets \<^verbatim>\<open>currentCaptureSessionId\<close>, is a step of its
    own (\<open>insert_callback\<close>): other control commands can be served before it runs.
  \<^item> Wall-clock stamps are arguments (\<open>now\<close>) where the code stores them in a session or
    uses them as a window bound, and are left out of the broadcast envelopes.
  \<^item> A \<^verbatim>\<open>TEXT\<close> column compares as SQLite's \<^verbatim>\<open>BINARY\<close> collation does: byte by byte,
    which is the lexicographic order of \<open>string\<close>.
\<close>

subsection \<open>Property reads and JavaScript operators\<close>

text \<open>What reading a property of a decoded object gives: the key is absent, holds
  \<^verbatim>\<open>null\<close>, or holds a value.\<close>

datatype 'a field = Undefined | Null | Val 'a

text \<open>\<^verbatim>\<open>x < c\<close> and \<^verbatim>\<open>x > c\<close> against a number: \<^verbatim>\<open>null\<close> converts to 0, \<^verbatim>\<open>undefined\<close> to NaN
  (every comparison with NaN is false).\<close>

fun lt_num :: "rat field \<Rightarrow> rat \<Rightarrow> bool" where
  "lt_num (Val v) c = (v < c)"
| "lt_num Null c = (0 < c)"
| "lt_num Undefined c = False"

fun gt_num :: "rat field \<Rightarrow> rat \<Rightarrow> bool" where
  "gt_num (Val v) c = (v > c)"
| "gt_num Null c = (0 > c)"
| "gt_num Undefined c = False"

text \<open>Truthiness, for the operand of \<^verbatim>\<open>||\<close>: a number is falsy when it is 0, a string when
  it is empty; \<^verbatim>\<open>null\<close> and \<^verbatim>\<open>undefined\<close> are falsy.\<close>

fun truthy_num :: "'a::zero field \<Rightarrow> bool" where
  "truthy_num (Val v) = (v \<noteq> 0)"
| "truthy_num Null = False"
| "truthy_num Undefined = False"

fun truthy_str :: "string field \<Rightarrow> bool" where
  "truthy_str (Val v) = (v \<noteq> [])"
| "truthy_str Null = False"
| "truthy_str Undefined = False"

text \<open>A bound statement parameter: \<^verbatim>\<open>null\<close> and \<^verbatim>\<open>undefined\<close> are stored as SQL NULL.\<close>

fun sql :: "'a field \<Rightarrow> 'a option" where
  "sql (Val v) = Some v"
| "sql Null = None"
| "sql Undefined = None"

subsection \<open>Messages\<close>

text \<open>The keys of a telemetry object that the code reads. \<open>degC\<close> is the key
  \<^verbatim>\<open>'\<degree>C'\<close>.\<close>

record payload =
  msg_id :: "string field"
  assay_id :: "string field"
  flask_id :: "int field"
  ts :: "string field"
  P_bar_abs :: "rat field"
  T_C :: "rat field"
  C :: "rat field"
  degC :: "rat field"
  timestamp :: "string field"
  accum_bar_per_h :: "rat field"
  accum_bar_per_hr :: "rat field"
  P_bar_std :: "rat field"
  relief_count :: "int field"
  event :: "string field"

definition no_keys :: payload where
  "no_keys = \<lparr> msg_id = Undefined, assay_id = Undefined, flask_id = Undefined, ts = Undefined,
     P_bar_abs = Undefined, T_C = Undefined, C = Undefined, degC = Undefined,
     timestamp = Undefined, accum_bar_per_h = Undefined, accum_bar_per_hr = Undefined,
     P_bar_std = Undefined, relief_count = Undefined, event = Undefined \<rparr>"

text \<open>What \<^verbatim>\<open>JSON.parse\<close> returns: \<^verbatim>\<open>null\<close>, a primitive (number, string, boolean), an
  array, or an object. None of the keys above is a property of a primitive or of an
  array.\<close>

datatype json = JNull | JPrimitive | JArray | JObject payload

text \<open>The bytes of an MQTT message: text that \<^verbatim>\<open>JSON.parse\<close> refuses, or a JSON text.\<close>

datatype message = Unparseable | Json json

text \<open>Reading properties of a value: \<^verbatim>\<open>null\<close> has none (a TypeError, \<open>None\<close>); a
  primitive or an array has none of the keys.\<close>

fun properties :: "json \<Rightarrow> payload option" where
  "properties JNull = None"
| "properties JPrimitive = Some no_keys"
| "properties JArray = Some no_keys"
| "properties (JObject p) = Some p"

subsection \<open>Configuration and state\<close>

record temperature_range =
  range_min :: "rat option"
  range_max :: "rat option"

record alert_config =
  pressureReliefThreshold :: "rat option"
  pressureWarningThreshold :: "rat option"
  temperatureRange :: "temperature_range option"

definition RELIEF_THRESHOLD :: rat where "RELIEF_THRESHOLD = 3/2"
definition MAX_PRESSURE :: rat where "MAX_PRESSURE = 2"
definition TEMPERATURE_RANGE_min :: rat where "TEMPERATURE_RANGE_min = 30"
definition TEMPERATURE_RANGE_max :: rat where "TEMPERATURE_RANGE_max = 45"

text \<open>\<^verbatim>\<open>alertConfig.pressureReliefThreshold ?? RELIEF_THRESHOLD\<close>,
  \<^verbatim>\<open>alertConfig.temperatureRange?.min ?? TEMPERATURE_RANGE.min\<close> and the same for max.\<close>

definition relief_threshold_of :: "alert_config \<Rightarrow> rat" where
  "relief_threshold_of cfg =
     (case pressureReliefThreshold cfg of Some v \<Rightarrow> v | None \<Rightarrow> RELIEF_THRESHOLD)"

definition temp_min_of :: "alert_config \<Rightarrow> rat" where
  "temp_min_of cfg =
     (case temperatureRange cfg of
        None \<Rightarrow> TEMPERATURE_RANGE_min
      | Some r \<Rightarrow> (case range_min r of Some v \<Rightarrow> v | None \<Rightarrow> TEMPERATURE_RANGE_min))"

definition temp_max_of :: "alert_config \<Rightarrow> rat" where
  "temp_max_of cfg =
     (case temperatureRange cfg of
        None \<Rightarrow> TEMPERATURE_RANGE_max
      | Some r \<Rightarrow> (case range_max r of Some v \<Rightarrow> v | None \<Rightarrow> TEMPERATURE_RANGE_max))"

text \<open>The initial value of the module variable \<^verbatim>\<open>alertConfig\<close>.\<close>

definition initial_alert_config :: alert_config where
  "initial_alert_config =
     \<lparr> pressureReliefThreshold = Some (3/2), pressureWarningThreshold = Some (5/2),
       temperatureRange = Some \<lparr> range_min = Some 30, range_max = Some 45 \<rparr> \<rparr>"

text \<open>A row of table \<^verbatim>\<open>telemetry\<close> (the columns the statements bind).\<close>

record telemetry_row =
  row_msg_id :: "string option"
  row_assay_id :: "string option"
  row_flask_id :: "int option"
  row_timestamp :: "string option"
  row_pressure_abs :: "rat option"
  row_temperature :: "rat option"
  row_pressure_std :: "rat option"
  row_production_rate :: "rat option"
  row_relief_count :: "int option"
  row_event :: "string option"

text \<open>The text of an alert, with the number it is printed from.\<close>

datatype alert_message =
    PressaoAlta rat
  | TemperaturaExtrema "rat field"
  | AlivioDePressao
  | PressaoAltaDetectada rat

text \<open>An alert object. \<open>alert_id\<close> is set on the copy \<^verbatim>\<open>saveAlert\<close> makes after the insert;
  \<open>acknowledged\<close> is a key only of the alert \<^verbatim>\<open>handleMQTTMessage\<close> builds.\<close>

record alert =
  alert_id :: "nat option"
  alert_flask_id :: "int field"
  alert_type :: string
  alert_message :: alert_message
  severity :: string
  acknowledged :: "bool option"

text \<open>A row of table \<^verbatim>\<open>capture_sessions\<close>.\<close>

record capture_session =
  session_id :: nat
  session_status :: string
  started_at :: "string option"
  stopped_at :: "string option"
  session_trigger :: "string option"
  session_assay_id :: "string option"

text \<open>An entry of the map \<^verbatim>\<open>flaskStates\<close>.\<close>

record flask_state =
  fs_flask_id :: "int field"
  fs_assay_id :: "string field"
  last_pressure :: "rat field"
  last_temperature :: "rat field"
  last_timestamp :: "string field"
  fs_relief_count :: "int field"
  fs_status :: string

text \<open>What \<^verbatim>\<open>broadcastToWebSocket\<close> is called with: the envelope's \<^verbatim>\<open>type\<close> and its
  \<^verbatim>\<open>data\<close> or \<^verbatim>\<open>alert\<close>.\<close>

datatype ws_event = Telemetry json | New_alert alert

text \<open>What \<^verbatim>\<open>mqttClient.publish\<close> is called with: the namespace, assay and flask the topic
  is built from, and the body.\<close>

datatype mqtt_publication =
    Ack string "string field" "int field" "string field"
  | Alert_topic string "string field" "int field" alert

text \<open>A file written by the window exporter: the two bounds of its name and its rows.\<close>

record csv_file =
  file_start :: string
  file_end :: string
  file_rows :: "telemetry_row list"

record state =
  telemetryCaptureEnabled :: bool
  currentCaptureSessionId :: "nat option"
  alertConfig :: alert_config
  telemetry :: "telemetry_row list"
  alerts_table :: "alert list"
  capture_sessions :: "capture_session list"
  flaskStates :: "int field \<Rightarrow> flask_state option"
  alerts :: "alert list"
  ws_sent :: "ws_event list"
  mqtt_published :: "mqtt_publication list"
  lastCsvExportAt :: "string option"
  csv_files :: "csv_file list"
  pending_inserts :: "nat list"

text \<open>\<open>pending_inserts\<close> holds, oldest first, the \<^verbatim>\<open>lastID\<close> of every insert of
  \<^verbatim>\<open>openCaptureSession\<close> whose completion callback has not run yet.\<close>

text \<open>The state after the module is loaded and the tables are created empty.\<close>

definition initial_state :: state where
  "initial_state =
     \<lparr> telemetryCaptureEnabled = False, currentCaptureSessionId = None,
       alertConfig = initial_alert_config, telemetry = [], alerts_table = [],
       capture_sessions = [], flaskStates = Map.empty, alerts = [], ws_sent = [],
       mqtt_published = [], lastCsvExportAt = None, csv_files = [], pending_inserts = [] \<rparr>"

text \<open>The state after the module is loaded on a database file that already holds the
  rows \<open>tbl\<close> in table \<^verbatim>\<open>capture_sessions\<close> (\<^verbatim>\<open>CREATE TABLE IF NOT EXISTS\<close> keeps them): the
  module variables start as in the source, \<^verbatim>\<open>telemetryCaptureEnabled = false\<close> and
  \<^verbatim>\<open>currentCaptureSessionId = null\<close>.\<close>

definition startup :: "capture_session list \<Rightarrow> state" where
  "startup tbl = initial_state\<lparr> capture_sessions := tbl \<rparr>"

definition broadcastToWebSocket :: "ws_event \<Rightarrow> state \<Rightarrow> state" where
  "broadcastToWebSocket ev s = s\<lparr> ws_sent := ws_sent s @ [ev] \<rparr>"

definition mqtt_publish :: "mqtt_publication \<Rightarrow> state \<Rightarrow> state" where
  "mqtt_publish m s = s\<lparr> mqtt_published := mqtt_published s @ [m] \<rparr>"

subsection \<open>Reading codec\<close>

text \<open>\<^verbatim>\<open>normalizeTelemetryPayload\<close>: a falsy or non-object payload is returned as it is; an
  object (or an array, which \<^verbatim>\<open>typeof\<close> calls an object) is copied by the spread and the
  aliases and defaults are filled in, each only where the canonical key reads
  \<^verbatim>\<open>undefined\<close>.\<close>

definition fill_T_C :: "payload \<Rightarrow> payload" where
  "fill_T_C n =
     (if T_C n = Undefined
      then (if C n \<noteq> Undefined then n\<lparr> T_C := C n \<rparr>
            else if degC n \<noteq> Undefined then n\<lparr> T_C := degC n \<rparr>
            else n)
      else n)"

definition fill_ts :: "payload \<Rightarrow> payload" where
  "fill_ts n =
     (if ts n = Undefined \<and> timestamp n \<noteq> Undefined then n\<lparr> ts := timestamp n \<rparr> else n)"

definition fill_accum_bar_per_h :: "payload \<Rightarrow> payload" where
  "fill_accum_bar_per_h n =
     (if accum_bar_per_h n = Undefined \<and> accum_bar_per_hr n \<noteq> Undefined
      then n\<lparr> accum_bar_per_h := accum_bar_per_hr n \<rparr> else n)"

definition fill_P_bar_std :: "payload \<Rightarrow> payload" where
  "fill_P_bar_std n =
     (if P_bar_std n = Undefined \<and> P_bar_abs n \<noteq> Undefined
      then n\<lparr> P_bar_std := P_bar_abs n \<rparr> else n)"

definition fill_relief_count :: "payload \<Rightarrow> payload" where
  "fill_relief_count n = (if relief_count n = Undefined then n\<lparr> relief_count := Val 0 \<rparr> else n)"

definition fill_event :: "payload \<Rightarrow> payload" where
  "fill_event n = (if event n = Undefined then n\<lparr> event := Null \<rparr> else n)"

text \<open>The statements of the function on the copy \<^verbatim>\<open>normalized\<close>, in their order.\<close>

definition normalize_object :: "payload \<Rightarrow> payload" where
  "normalize_object payload =
     fill_event (fill_relief_count (fill_P_bar_std (fill_accum_bar_per_h
       (fill_ts (fill_T_C payload)))))"

fun normalizeTelemetryPayload :: "json \<Rightarrow> json" where
  "normalizeTelemetryPayload JNull = JNull"
| "normalizeTelemetryPayload JPrimitive = JPrimitive"
| "normalizeTelemetryPayload JArray = JObject (normalize_object no_keys)"
| "normalizeTelemetryPayload (JObject payload) = JObject (normalize_object payload)"

subsection \<open>Validator\<close>

text \<open>\<^verbatim>\<open>data[field] === undefined || data[field] === null\<close>.\<close>

definition missing :: "'a field \<Rightarrow> bool" where
  "missing f = (f = Undefined \<or> f = Null)"

text \<open>\<^verbatim>\<open>validateTelemetryData\<close> on an object: the six required fields in the order of the
  loop, then the pressure envelope, then the temperature range of the configuration.\<close>

definition validate_object :: "alert_config \<Rightarrow> payload \<Rightarrow> bool" where
  "validate_object cfg data =
     (if missing (msg_id data) \<or> missing (assay_id data) \<or> missing (flask_id data)
         \<or> missing (ts data) \<or> missing (P_bar_abs data) \<or> missing (T_C data)
      then False
      else if lt_num (P_bar_abs data) (1/2) \<or> gt_num (P_bar_abs data) MAX_PRESSURE
      then False
      else if lt_num (T_C data) (temp_min_of cfg) \<or> gt_num (T_C data) (temp_max_of cfg)
      then False
      else True)"

text \<open>On any value: reading a property of \<^verbatim>\<open>null\<close> throws (\<open>None\<close>).\<close>

definition validateTelemetryData :: "alert_config \<Rightarrow> json \<Rightarrow> bool option" where
  "validateTelemetryData cfg data = map_option (validate_object cfg) (properties data)"

subsection \<open>Persistence\<close>

text \<open>The row \<^verbatim>\<open>saveTelemetryData\<close> binds.\<close>

definition telemetry_row_of :: "payload \<Rightarrow> telemetry_row" where
  "telemetry_row_of data =
     \<lparr> row_msg_id = sql (msg_id data),
       row_assay_id = sql (assay_id data),
       row_flask_id = sql (flask_id data),
       row_timestamp = sql (ts data),
       row_pressure_abs = sql (P_bar_abs data),
       row_temperature = sql (T_C data),
       row_pressure_std =
         (if truthy_num (P_bar_std data) then sql (P_bar_std data) else sql (P_bar_abs data)),
       row_production_rate =
         (if truthy_num (accum_bar_per_h data) then sql (accum_bar_per_h data) else Some 0),
       row_relief_count =
         (if truthy_num (relief_count data) then sql (relief_count data) else Some 0),
       row_event = (if truthy_str (event data) then sql (event data) else None) \<rparr>"

text \<open>\<^verbatim>\<open>msg_id TEXT UNIQUE\<close>: the insert fails when a row already holds the same non-NULL
  \<^verbatim>\<open>msg_id\<close> (NULLs never collide).\<close>

definition unique_violation :: "telemetry_row list \<Rightarrow> telemetry_row \<Rightarrow> bool" where
  "unique_violation tbl r =
     (row_msg_id r \<noteq> None \<and> row_msg_id r \<in> set (map row_msg_id tbl))"

text \<open>\<^verbatim>\<open>saveTelemetryData\<close>: the insert; on a constraint error the callback only logs.\<close>

definition saveTelemetryData :: "payload \<Rightarrow> state \<Rightarrow> state" where
  "saveTelemetryData data s =
     (let r = telemetry_row_of data in
      if unique_violation (telemetry s) r then s
      else s\<lparr> telemetry := telemetry s @ [r] \<rparr>)"

subsection \<open>Station snapshots\<close>

definition updateFlaskState :: "payload \<Rightarrow> state \<Rightarrow> state" where
  "updateFlaskState data s =
     (let flaskId = flask_id data;
          rc = (if truthy_num (relief_count data) then relief_count data else Val 0) in
      case flaskStates s flaskId of
        None \<Rightarrow>
          s\<lparr> flaskStates := (flaskStates s)(flaskId \<mapsto>
               \<lparr> fs_flask_id = flaskId, fs_assay_id = assay_id data,
                 last_pressure = P_bar_abs data, last_temperature = T_C data,
                 last_timestamp = ts data, fs_relief_count = rc,
                 fs_status = ''active'' \<rparr>) \<rparr>
      | Some st \<Rightarrow>
          s\<lparr> flaskStates := (flaskStates s)(flaskId \<mapsto>
               st\<lparr> last_pressure := P_bar_abs data, last_temperature := T_C data,
                   last_timestamp := ts data, fs_relief_count := rc \<rparr>) \<rparr>)"

subsection \<open>Alert evaluator\<close>

text \<open>\<^verbatim>\<open>saveAlert\<close>: the insert into table \<^verbatim>\<open>alerts\<close> (\<^verbatim>\<open>AUTOINCREMENT\<close>: rows are never
  deleted, so the new id is the number of rows plus one), then, in the callback, the
  copy with the id is pushed on the in-memory list, the list is cut to its last 100
  entries, and the copy is broadcast as \<^verbatim>\<open>new_alert\<close>. A row of the table is
  modelled by that copy.\<close>

definition saveAlert :: "alert \<Rightarrow> state \<Rightarrow> state" where
  "saveAlert a s =
     (let saved = a\<lparr> alert_id := Some (length (alerts_table s) + 1) \<rparr>;
          pushed = alerts s @ [saved];
          kept = (if length pushed > 100 then drop (length pushed - 100) pushed else pushed)
      in broadcastToWebSocket (New_alert saved)
           (s\<lparr> alerts_table := alerts_table s @ [saved], alerts := kept \<rparr>))"

text \<open>The three rules of \<^verbatim>\<open>checkAlerts\<close>, each pushing on the local array. The first
  prints \<^verbatim>\<open>data.P_bar_abs.toFixed(2)\<close>, which throws when the pressure is \<^verbatim>\<open>null\<close> and
  the rule fires (\<open>None\<close>).\<close>

definition high_pressure_rule :: "alert_config \<Rightarrow> payload \<Rightarrow> alert list option" where
  "high_pressure_rule cfg data =
     (if gt_num (P_bar_abs data) (relief_threshold_of cfg)
      then (case P_bar_abs data of
              Val p \<Rightarrow> Some [\<lparr> alert_id = None, alert_flask_id = flask_id data,
                               alert_type = ''high_pressure'', alert_message = PressaoAlta p,
                               severity = ''warning'', acknowledged = None \<rparr>]
            | Null \<Rightarrow> None
            | Undefined \<Rightarrow> None)
      else Some [])"

definition temperature_rule :: "alert_config \<Rightarrow> payload \<Rightarrow> alert list" where
  "temperature_rule cfg data =
     (if lt_num (T_C data) (temp_min_of cfg) \<or> gt_num (T_C data) (temp_max_of cfg)
      then [\<lparr> alert_id = None, alert_flask_id = flask_id data,
              alert_type = ''temperature_extreme'',
              alert_message = TemperaturaExtrema (T_C data),
              severity = ''warning'', acknowledged = None \<rparr>]
      else [])"

definition relief_rule :: "payload \<Rightarrow> alert list" where
  "relief_rule data =
     (if event data = Val ''relief''
      then [\<lparr> alert_id = None, alert_flask_id = flask_id data,
              alert_type = ''pressure_relief'', alert_message = AlivioDePressao,
              severity = ''info'', acknowledged = None \<rparr>]
      else [])"

text \<open>The local array \<^verbatim>\<open>alerts\<close> of \<^verbatim>\<open>checkAlerts\<close> before the \<^verbatim>\<open>forEach\<close>.\<close>

definition checkAlerts_list :: "alert_config \<Rightarrow> payload \<Rightarrow> alert list option" where
  "checkAlerts_list cfg data =
     map_option (\<lambda>hp. hp @ temperature_rule cfg data @ relief_rule data)
       (high_pressure_rule cfg data)"

text \<open>The body of the \<^verbatim>\<open>forEach\<close>: save, then publish on the \<^verbatim>\<open>ankom\<close> alert topic.\<close>

definition fire_alert :: "payload \<Rightarrow> alert \<Rightarrow> state \<Rightarrow> state" where
  "fire_alert data a s =
     mqtt_publish (Alert_topic ''ankom'' (assay_id data) (flask_id data) a) (saveAlert a s)"

text \<open>How a call ends: it returns, or a TypeError leaves it.\<close>

datatype completion = Returned | Threw

definition checkAlerts :: "payload \<Rightarrow> state \<Rightarrow> completion \<times> state" where
  "checkAlerts data s =
     (case checkAlerts_list (alertConfig s) data of
        None \<Rightarrow> (Threw, s)
      | Some as \<Rightarrow> (Returned, fold (fire_alert data) as s))"

subsection \<open>Ingestion\<close>

text \<open>The namespace of the acknowledgement and alert topics:
  \<^verbatim>\<open>namespace === 'rumen'\<close> selects the \<^verbatim>\<open>rumen/\<close> topics, anything else the
  \<^verbatim>\<open>ankom/\<close> topics.\<close>

definition topic_namespace :: "string \<Rightarrow> string" where
  "topic_namespace namespace = (if namespace = ''rumen'' then ''rumen'' else ''ankom'')"

text \<open>\<^verbatim>\<open>processTelemetryData\<close>: validate (return when invalid), save when capture is on,
  update the snapshot, evaluate the alerts, broadcast the \<^verbatim>\<open>telemetry\<close> envelope,
  publish the acknowledgement.\<close>

definition processTelemetryData :: "json \<Rightarrow> string \<Rightarrow> state \<Rightarrow> completion \<times> state" where
  "processTelemetryData data namespace s =
     (case validateTelemetryData (alertConfig s) data of
        None \<Rightarrow> (Threw, s)
      | Some False \<Rightarrow> (Returned, s)
      | Some True \<Rightarrow>
          (case properties data of
             None \<Rightarrow> (Threw, s)
           | Some d \<Rightarrow>
               (let s1 = (if telemetryCaptureEnabled s then saveTelemetryData d s else s);
                    s2 = updateFlaskState d s1
                in case checkAlerts d s2 of
                     (Threw, s3) \<Rightarrow> (Threw, s3)
                   | (Returned, s3) \<Rightarrow>
                       (Returned,
                        mqtt_publish
                          (Ack (topic_namespace namespace) (assay_id d) (flask_id d) (msg_id d))
                          (broadcastToWebSocket (Telemetry data) s3)))))"

text \<open>The alert \<^verbatim>\<open>handleMQTTMessage\<close> builds when \<^verbatim>\<open>data.P_bar_abs > 2.5\<close>.\<close>

definition pressure_warning :: "payload \<Rightarrow> rat \<Rightarrow> alert" where
  "pressure_warning d p =
     \<lparr> alert_id = None, alert_flask_id = flask_id d, alert_type = ''pressure_warning'',
       alert_message = PressaoAltaDetectada p, severity = ''high'',
       acknowledged = Some False \<rparr>"

text \<open>\<^verbatim>\<open>handleMQTTMessage\<close> on a topic that contains \<^verbatim>\<open>/telemetry\<close>, the branch that
  ingests; \<open>namespace\<close> is the first segment of the topic. Inside the \<^verbatim>\<open>try\<close>: parse,
  normalize, \<^verbatim>\<open>processTelemetryData\<close>, then the \<^verbatim>\<open>telemetry\<close> broadcast of the handler
  itself, then its own pressure check against 2.5 (\<^verbatim>\<open>null > 2.5\<close> and
  \<^verbatim>\<open>undefined > 2.5\<close> are false). An exception from any step leaves the \<^verbatim>\<open>try\<close> for the
  \<^verbatim>\<open>catch\<close>, which logs.\<close>

definition handleMQTTMessage :: "string \<Rightarrow> message \<Rightarrow> state \<Rightarrow> state" where
  "handleMQTTMessage namespace msg s =
     (case msg of
        Unparseable \<Rightarrow> s
      | Json raw \<Rightarrow>
          (let data = normalizeTelemetryPayload raw
           in case processTelemetryData data namespace s of
                (Threw, s1) \<Rightarrow> s1
              | (Returned, s1) \<Rightarrow>
                  (let s2 = broadcastToWebSocket (Telemetry data) s1
                   in case properties data of
                        None \<Rightarrow> s2
                      | Some d \<Rightarrow>
                          (case P_bar_abs d of
                             Val p \<Rightarrow>
                               (if p > 5/2
                                then (let a = pressure_warning d p
                                      in mqtt_publish
                                           (Alert_topic (topic_namespace namespace)
                                              (assay_id d) (flask_id d) a)
                                           (broadcastToWebSocket (New_alert a) (saveAlert a s2)))
                                else s2)
                           | Null \<Rightarrow> s2
                           | Undefined \<Rightarrow> s2))))"

text \<open>A stream of telemetry messages, one after the other.\<close>

definition ingest :: "string \<Rightarrow> message list \<Rightarrow> state \<Rightarrow> state" where
  "ingest namespace msgs s = fold (handleMQTTMessage namespace) msgs s"

definition process_all :: "string \<Rightarrow> json list \<Rightarrow> state \<Rightarrow> state" where
  "process_all namespace ds s = fold (\<lambda>d t. snd (processTelemetryData d namespace t)) ds s"

subsection \<open>Capture session controller\<close>

text \<open>\<^verbatim>\<open>x || null\<close> for an optional string argument.\<close>

definition or_null :: "string option \<Rightarrow> string option" where
  "or_null x = (case x of None \<Rightarrow> None | Some v \<Rightarrow> (if v = [] then None else Some v))"

text \<open>\<^verbatim>\<open>this.lastID\<close> of an insert into \<^verbatim>\<open>capture_sessions\<close> (\<^verbatim>\<open>AUTOINCREMENT\<close>; rows are never
  deleted): one more than the largest id in the table.\<close>

definition next_session_id :: "capture_session list \<Rightarrow> nat" where
  "next_session_id tbl = foldr max (map session_id tbl) 0 + 1"

text \<open>\<^verbatim>\<open>openCaptureSession\<close>: the insert is issued and \<^verbatim>\<open>telemetryCaptureEnabled\<close> is set at
  once; \<^verbatim>\<open>currentCaptureSessionId\<close> is left as it is until the callback of the insert
  runs.\<close>

definition openCaptureSession :: "string option \<Rightarrow> string option \<Rightarrow> string \<Rightarrow> state \<Rightarrow> state" where
  "openCaptureSession trig assayId now s =
     (let lastID = next_session_id (capture_sessions s);
          r = \<lparr> session_id = lastID, session_status = ''enabled'', started_at = Some now,
                stopped_at = None, session_trigger = or_null trig,
                session_assay_id = or_null assayId \<rparr>
      in s\<lparr> capture_sessions := capture_sessions s @ [r],
            pending_inserts := pending_inserts s @ [lastID],
            telemetryCaptureEnabled := True \<rparr>)"

text \<open>The callback of the oldest insert still pending:
  \<^verbatim>\<open>if (!err) { currentCaptureSessionId = this.lastID; }\<close>.\<close>

definition insert_callback :: "state \<Rightarrow> state" where
  "insert_callback s =
     (case pending_inserts s of
        [] \<Rightarrow> s
      | lastID # rest \<Rightarrow>
          s\<lparr> currentCaptureSessionId := Some lastID, pending_inserts := rest \<rparr>)"

text \<open>The \<^verbatim>\<open>UPDATE ... WHERE id = ?\<close> of \<^verbatim>\<open>closeCaptureSession\<close>.\<close>

definition close_row :: "nat \<Rightarrow> string option \<Rightarrow> string \<Rightarrow> capture_session \<Rightarrow> capture_session" where
  "close_row cur trig now r =
     (if session_id r = cur
      then r\<lparr> session_status := ''disabled'', stopped_at := Some now,
              session_trigger := or_null trig \<rparr>
      else r)"

text \<open>\<^verbatim>\<open>if (currentCaptureSessionId)\<close>: \<^verbatim>\<open>null\<close> and 0 are falsy.\<close>

definition closeCaptureSession :: "string option \<Rightarrow> string \<Rightarrow> state \<Rightarrow> state" where
  "closeCaptureSession trig now s =
     (case currentCaptureSessionId s of
        None \<Rightarrow> s\<lparr> telemetryCaptureEnabled := False \<rparr>
      | Some cur \<Rightarrow>
          (if cur = 0 then s\<lparr> telemetryCaptureEnabled := False \<rparr>
           else s\<lparr> capture_sessions := map (close_row cur trig now) (capture_sessions s),
                   currentCaptureSessionId := None,
                   telemetryCaptureEnabled := False \<rparr>))"

text \<open>What happens to the controller: the control commands of the administrative
  surface, as the routes issue them (open with a trigger and an optional assay, close
  with a trigger, each at a clock reading), and the event loop running the callback of
  a pending insert.\<close>

datatype command =
    Open_session "string option" "string option" string
  | Close_session "string option" string
  | Insert_callback

fun run_command :: "command \<Rightarrow> state \<Rightarrow> state" where
  "run_command (Open_session trig assayId now) s = openCaptureSession trig assayId now s"
| "run_command (Close_session trig now) s = closeCaptureSession trig now s"
| "run_command Insert_callback s = insert_callback s"

definition run_commands :: "command list \<Rightarrow> state \<Rightarrow> state" where
  "run_commands cs s = fold run_command cs s"

text \<open>The sessions whose status is \<^verbatim>\<open>enabled\<close>.\<close>

definition enabled_sessions :: "state \<Rightarrow> capture_session list" where
  "enabled_sessions s = filter (\<lambda>r. session_status r = ''enabled'') (capture_sessions s)"

text \<open>A command list that is served one command at a time and never opens twice: the
  callback of every open runs before the next command, and no open is issued while a
  session is open. The flag says whether a session is open before the first command. A
  callback with no insert pending does nothing.\<close>

fun sequenced :: "bool \<Rightarrow> command list \<Rightarrow> bool" where
  "sequenced is_open [] = True"
| "sequenced is_open (Open_session trig assayId now # Insert_callback # cs)
     = (\<not> is_open \<and> sequenced True cs)"
| "sequenced is_open (Open_session trig assayId now # cs) = False"
| "sequenced is_open (Close_session trig now # cs) = sequenced False cs"
| "sequenced is_open (Insert_callback # cs) = sequenced is_open cs"

text \<open>The controller between two commands of a sequenced list: no callback is pending,
  and either no session is enabled and none is current, or the only enabled sessions
  are those of the current id.\<close>

definition settled :: "bool \<Rightarrow> state \<Rightarrow> bool" where
  "settled is_open s =
     (pending_inserts s = []
      \<and> (if is_open
         then (case currentCaptureSessionId s of
                 None \<Rightarrow> False
               | Some cur \<Rightarrow> cur \<noteq> 0 \<and> map session_id (enabled_sessions s) = [cur])
         else currentCaptureSessionId s = None \<and> enabled_sessions s = []))"

subsection \<open>Periodic window exporter\<close>

text \<open>The rows of
  \<^verbatim>\<open>SELECT ... FROM telemetry WHERE timestamp >= ? AND timestamp <= ? ORDER BY timestamp ASC\<close>.
  A NULL timestamp satisfies neither comparison.\<close>

definition in_window :: "string \<Rightarrow> string \<Rightarrow> telemetry_row \<Rightarrow> bool" where
  "in_window startISO endISO r =
     (case row_timestamp r of None \<Rightarrow> False | Some t \<Rightarrow> startISO \<le> t \<and> t \<le> endISO)"

definition window_rows :: "string \<Rightarrow> string \<Rightarrow> telemetry_row list \<Rightarrow> telemetry_row list" where
  "window_rows startISO endISO tbl =
     sort_key (\<lambda>r. case row_timestamp r of None \<Rightarrow> [] | Some t \<Rightarrow> t)
       (filter (in_window startISO endISO) tbl)"

text \<open>What the environment does to one export: nothing, the query fails, or writing the
  file fails.\<close>

datatype export_env = Env_ok | Db_error | Fs_error

text \<open>How the promise of \<^verbatim>\<open>exportTelemetryWindowToCSV\<close> settles: rejected, resolved with
  \<^verbatim>\<open>null\<close> (no rows, no file), or resolved with the file written.\<close>

datatype export_result = Rejected | Resolved "csv_file option"

definition exportTelemetryWindowToCSV ::
  "export_env \<Rightarrow> string option \<Rightarrow> string \<Rightarrow> state \<Rightarrow> export_result \<times> state" where
  "exportTelemetryWindowToCSV env startISO endISO s =
     (if env = Db_error then (Rejected, s)
      else (case startISO of
              None \<Rightarrow> (Resolved None, s)
            | Some st \<Rightarrow>
                (let rows = window_rows st endISO (telemetry s)
                 in if rows = [] then (Resolved None, s)
                    else if env = Fs_error then (Rejected, s)
                    else (let f = \<lparr> file_start = st, file_end = endISO, file_rows = rows \<rparr>
                          in (Resolved (Some f), s\<lparr> csv_files := csv_files s @ [f] \<rparr>)))))"

text \<open>\<^verbatim>\<open>scheduleCsvAutoExport\<close> before the timer: the watermark starts five minutes before
  the clock reading (\<open>five_minutes_ago\<close> is that instant as text) unless it is set.\<close>

definition scheduleCsvAutoExport :: "string \<Rightarrow> state \<Rightarrow> state" where
  "scheduleCsvAutoExport five_minutes_ago s =
     (if lastCsvExportAt s = None \<or> lastCsvExportAt s = Some []
      then s\<lparr> lastCsvExportAt := Some five_minutes_ago \<rparr> else s)"

text \<open>The timer callback at clock reading \<open>now\<close>: the watermark moves only when the
  promise resolves.\<close>

definition csv_tick :: "export_env \<Rightarrow> string \<Rightarrow> state \<Rightarrow> state" where
  "csv_tick env now s =
     (let startISO = lastCsvExportAt s; endISO = now
      in case exportTelemetryWindowToCSV env startISO endISO s of
           (Rejected, s1) \<Rightarrow> s1
         | (Resolved f, s1) \<Rightarrow> s1\<lparr> lastCsvExportAt := Some endISO \<rparr>)"

subsection \<open>Observations\<close>

text \<open>The kinds of envelope on the subscriber stream.\<close>

fun is_telemetry :: "ws_event \<Rightarrow> bool" where
  "is_telemetry (Telemetry d) = True"
| "is_telemetry (New_alert a) = False"

fun is_new_alert :: "ws_event \<Rightarrow> bool" where
  "is_new_alert (Telemetry d) = False"
| "is_new_alert (New_alert a) = True"

text \<open>The copies \<^verbatim>\<open>saveAlert\<close> stores for a list of alerts saved one after the other when
  the table holds \<open>n\<close> rows.\<close>

fun with_ids :: "nat \<Rightarrow> alert list \<Rightarrow> alert list" where
  "with_ids n [] = []"
| "with_ids n (a # as) = a\<lparr> alert_id := Some (n + 1) \<rparr> # with_ids (n + 1) as"

definition is_high_pressure :: "alert \<Rightarrow> bool" where
  "is_high_pressure a = (alert_type a = ''high_pressure'')"

text \<open>The rows of the table that hold a given \<^verbatim>\<open>msg_id\<close>.\<close>

definition rows_with :: "string \<Rightarrow> state \<Rightarrow> telemetry_row list" where
  "rows_with m s = filter (\<lambda>r. row_msg_id r = Some m) (telemetry s)"

text \<open>The last reading of a list that names station \<open>f\<close>.\<close>

definition last_for :: "int field \<Rightarrow> payload list \<Rightarrow> payload option" where
  "last_for f ds =
     (if filter (\<lambda>d. flask_id d = f) ds = [] then None
      else Some (last (filter (\<lambda>d. flask_id d = f) ds)))"

subsection \<open>The effect of one valid Reading\<close>

text \<open>The state \<^verbatim>\<open>processTelemetryData\<close> leaves for a valid object.\<close>

definition processed :: "payload \<Rightarrow> string \<Rightarrow> alert list \<Rightarrow> state \<Rightarrow> state" where
  "processed d ns as s =
     mqtt_publish (Ack (topic_namespace ns) (assay_id d) (flask_id d) (msg_id d))
       (broadcastToWebSocket (Telemetry (JObject d))
          (fold (fire_alert d) as
             (updateFlaskState d
                (if telemetryCaptureEnabled s then saveTelemetryData d s else s))))"

subsection \<open>Example inputs\<close>

text \<open>The Reading of the end-to-end scenario:
  \<^verbatim>\<open>{msg_id:"a", assay_id:"X", flask_id:1, ts:"2024-01-01T00:00:00Z", P_bar_abs:1.6, T_C:39.0}\<close>.\<close>

definition scenario_reading :: payload where
  "scenario_reading =
     no_keys\<lparr> msg_id := Val ''a'', assay_id := Val ''X'', flask_id := Val 1,
              ts := Val ''2024-01-01T00:00:00Z'', P_bar_abs := Val (8/5), T_C := Val 39 \<rparr>"

text \<open>The same Reading at another temperature, and at another pressure.\<close>

definition reading_at_temperature :: "rat \<Rightarrow> payload" where
  "reading_at_temperature t = scenario_reading\<lparr> T_C := Val t \<rparr>"

definition reading_at_pressure :: "rat \<Rightarrow> payload" where
  "reading_at_pressure p = scenario_reading\<lparr> P_bar_abs := Val p \<rparr>"

text \<open>The state after start-up and one \<^verbatim>\<open>openCaptureSession('assay_start', 'X')\<close>: capture
  is enabled and \<^verbatim>\<open>pressureReliefThreshold\<close> is 1.5.\<close>

definition capturing_state :: state where
  "capturing_state =
     openCaptureSession (Some ''assay_start'') (Some ''X'') ''2024-01-01T00:00:00.000Z''
       initial_state"

text \<open>A payload with aliases beside the canonical keys.\<close>

definition aliased_payload :: payload where
  "aliased_payload =
     scenario_reading\<lparr> C := Val 10, degC := Val 11, timestamp := Val ''later'',
       accum_bar_per_h := Val (1/10), accum_bar_per_hr := Val (2/10),
       P_bar_std := Val (3/2), relief_count := Val 4, event := Val ''relief'' \<rparr>"

text \<open>A store holding one row stamped exactly at the end of the first export window,
  after \<^verbatim>\<open>scheduleCsvAutoExport\<close> has set the watermark at start-up.\<close>

definition boundary_state :: state where
  "boundary_state =
     scheduleCsvAutoExport ''2024-01-01T00:00:00.000Z''
       (initial_state\<lparr>
          telemetry := [telemetry_row_of
                          (scenario_reading\<lparr> ts := Val ''2024-01-01T00:05:00.000Z'' \<rparr>)] \<rparr>)"

text \<open>Two valid Readings of two stations.\<close>

definition two_readings :: "payload list" where
  "two_readings =
     [scenario_reading,
      scenario_reading\<lparr> msg_id := Val ''b'', flask_id := Val 2, P_bar_abs := Val (7/5) \<rparr>]"

text \<open>Control commands: two opens in a row, as two \<^verbatim>\<open>POST /api/assay/start\<close> issue them;
  and a start, a stop and a start, each open followed by its callback.\<close>

definition reopen_commands :: "command list" where
  "reopen_commands =
     [Open_session (Some ''assay_start'') (Some ''X'') ''2024-01-01T00:00:00.000Z'',
      Open_session (Some ''assay_start'') (Some ''Y'') ''2024-01-01T01:00:00.000Z'']"

definition start_stop_start :: "command list" where
  "start_stop_start =
     [Open_session (Some ''simulation_start'') None ''2024-01-01T00:00:00.000Z'',
      Insert_callback,
      Close_session (Some ''simulation_stop'') ''2024-01-01T01:00:00.000Z'',
      Open_session (Some ''assay_start'') (Some ''X'') ''2024-01-01T02:00:00.000Z'',
      Insert_callback]"

text \<open>A session closed by an earlier run of the server, found in the table at start-up;
  and a session an earlier run left open (no shutdown path closes it).\<close>

definition closed_earlier :: capture_session where
  "closed_earlier =
     \<lparr> session_id = 1, session_status = ''disabled'',
       started_at = Some ''2023-12-31T00:00:00.000Z'',
       stopped_at = Some ''2023-12-31T01:00:00.000Z'',
       session_trigger = Some ''assay_stop'', session_assay_id = None \<rparr>"

definition left_open :: capture_session where
  "left_open =
     \<lparr> session_id = 1, session_status = ''enabled'',
       started_at = Some ''2023-12-31T00:00:00.000Z'', stopped_at = None,
       session_trigger = Some ''assay_start'', session_assay_id = Some ''X'' \<rparr>"

text \<open>A close served before the callback of the open before it.\<close>

definition close_overtakes_callback :: "command list" where
  "close_overtakes_callback =
     [Open_session (Some ''assay_start'') (Some ''X'') ''2024-01-01T00:00:00.000Z'',
      Close_session (Some ''assay_stop'') ''2024-01-01T00:00:00.001Z'',
      Insert_callback]"

text \<open>A session row is consistent when it is enabled without a stop time or has a stop
  time.\<close>

definition consistent_session :: "capture_session \<Rightarrow> bool" where
  "consistent_session r =
     (if session_status r = ''enabled'' then stopped_at r = None else stopped_at r \<noteq> None)"

section \<open>Reading codec: defaults, idempotence\<close>

text \<open>Each statement of the codec is one unconditional update of the key it fills.\<close>

lemma fill_T_C_eq:
  "fill_T_C p =
     p\<lparr> T_C := (if T_C p = Undefined then (if C p \<noteq> Undefined then C p else degC p)
                 else T_C p) \<rparr>"
  by (simp add: fill_T_C_def)

lemma fill_ts_eq: "fill_ts p = p\<lparr> ts := (if ts p = Undefined then timestamp p else ts p) \<rparr>"
  by (simp add: fill_ts_def)

lemma fill_accum_bar_per_h_eq:
  "fill_accum_bar_per_h p =
     p\<lparr> accum_bar_per_h :=
          (if accum_bar_per_h p = Undefined then accum_bar_per_hr p else accum_bar_per_h p) \<rparr>"
  by (simp add: fill_accum_bar_per_h_def)

lemma fill_P_bar_std_eq:
  "fill_P_bar_std p =
     p\<lparr> P_bar_std := (if P_bar_std p = Undefined then P_bar_abs p else P_bar_std p) \<rparr>"
  by (simp add: fill_P_bar_std_def)

lemma fill_relief_count_eq:
  "fill_relief_count p =
     p\<lparr> relief_count := (if relief_count p = Undefined then Val 0 else relief_count p) \<rparr>"
  by (simp add: fill_relief_count_def)

lemma fill_event_eq:
  "fill_event p = p\<lparr> event := (if event p = Undefined then Null else event p) \<rparr>"
  by (simp add: fill_event_def)

lemma normalize_object_eq:
  "normalize_object p =
     p\<lparr> T_C := (if T_C p = Undefined then (if C p \<noteq> Undefined then C p else degC p)
                 else T_C p),
        ts := (if ts p = Undefined then timestamp p else ts p),
        accum_bar_per_h :=
          (if accum_bar_per_h p = Undefined then accum_bar_per_hr p else accum_bar_per_h p),
        P_bar_std := (if P_bar_std p = Undefined then P_bar_abs p else P_bar_std p),
        relief_count := (if relief_count p = Undefined then Val 0 else relief_count p),
        event := (if event p = Undefined then Null else event p) \<rparr>"
  unfolding normalize_object_def
  by (simp add: fill_T_C_eq fill_ts_eq fill_accum_bar_per_h_eq fill_P_bar_std_eq
      fill_relief_count_eq fill_event_eq split del: if_split cong del: if_weak_cong)

lemma normalize_object_idem: "normalize_object (normalize_object p) = normalize_object p"
  by (rule payload.equality) (simp_all add: normalize_object_eq)

text \<open>
  C9, as stated, fails. For the empty object \<^verbatim>\<open>{}\<close> the normalized \<^verbatim>\<open>event\<close> is \<^verbatim>\<open>null\<close>, not
  the string \<^verbatim>\<open>"none"\<close>; and a payload that parses to a primitive (for example \<^verbatim>\<open>5\<close>) is
  returned as it is, so its \<^verbatim>\<open>relief_count\<close> reads \<^verbatim>\<open>undefined\<close>, not 0.
\<close>

theorem C9_event_default_is_null:
  "map_option event (properties (normalizeTelemetryPayload (JObject no_keys))) = Some Null
   \<and> map_option event (properties (normalizeTelemetryPayload (JObject no_keys)))
        \<noteq> Some (Val ''none'')
   \<and> map_option relief_count (properties (normalizeTelemetryPayload JPrimitive))
        = Some Undefined"
  by (simp add: no_keys_def normalize_object_eq)

text \<open>
  C9, amended. The codec never fails. For a payload that parses to an object, the
  normalized \<^verbatim>\<open>relief_count\<close> is 0 when the key is absent and \<^verbatim>\<open>event\<close> is \<^verbatim>\<open>null\<close> when the
  key is absent; a key that is present keeps its value. An array becomes an object with
  both defaults. \<^verbatim>\<open>null\<close> and primitives are returned unchanged, without defaults.
\<close>

theorem C9_codec_defaults:
  "(\<exists>q. normalizeTelemetryPayload (JObject p) = JObject q
       \<and> relief_count q = (if relief_count p = Undefined then Val 0 else relief_count p)
       \<and> event q = (if event p = Undefined then Null else event p))
   \<and> (\<exists>q. normalizeTelemetryPayload JArray = JObject q
          \<and> relief_count q = Val 0 \<and> event q = Null)
   \<and> normalizeTelemetryPayload JNull = JNull
   \<and> normalizeTelemetryPayload JPrimitive = JPrimitive"
  by (simp add: normalize_object_eq no_keys_def)

text \<open>
  C10. \<^verbatim>\<open>normalizeTelemetryPayload\<close> is idempotent on every parsed payload, and for an
  object each canonical key (\<^verbatim>\<open>T_C\<close>, \<^verbatim>\<open>ts\<close>, \<^verbatim>\<open>accum_bar_per_h\<close>, \<^verbatim>\<open>P_bar_std\<close>,
  \<^verbatim>\<open>relief_count\<close>, \<^verbatim>\<open>event\<close>) that is present keeps its value: an alias never overrides
  it.
\<close>

theorem C10_normalize_idempotent_canonical:
  "normalizeTelemetryPayload (normalizeTelemetryPayload j) = normalizeTelemetryPayload j
   \<and> (\<exists>q. normalizeTelemetryPayload (JObject p) = JObject q
        \<and> (T_C p \<noteq> Undefined \<longrightarrow> T_C q = T_C p)
        \<and> (ts p \<noteq> Undefined \<longrightarrow> ts q = ts p)
        \<and> (accum_bar_per_h p \<noteq> Undefined \<longrightarrow> accum_bar_per_h q = accum_bar_per_h p)
        \<and> (P_bar_std p \<noteq> Undefined \<longrightarrow> P_bar_std q = P_bar_std p)
        \<and> (relief_count p \<noteq> Undefined \<longrightarrow> relief_count q = relief_count p)
        \<and> (event p \<noteq> Undefined \<longrightarrow> event q = event p))"
proof
  show "normalizeTelemetryPayload (normalizeTelemetryPayload j) = normalizeTelemetryPayload j"
    by (cases j) (simp_all add: normalize_object_idem)
next
  show "\<exists>q. normalizeTelemetryPayload (JObject p) = JObject q
        \<and> (T_C p \<noteq> Undefined \<longrightarrow> T_C q = T_C p)
        \<and> (ts p \<noteq> Undefined \<longrightarrow> ts q = ts p)
        \<and> (accum_bar_per_h p \<noteq> Undefined \<longrightarrow> accum_bar_per_h q = accum_bar_per_h p)
        \<and> (P_bar_std p \<noteq> Undefined \<longrightarrow> P_bar_std q = P_bar_std p)
        \<and> (relief_count p \<noteq> Undefined \<longrightarrow> relief_count q = relief_count p)
        \<and> (event p \<noteq> Undefined \<longrightarrow> event q = event p)"
    by (simp add: normalize_object_eq)
qed

lemma aliased_fields:
  "T_C aliased_payload = Val 39" "C aliased_payload = Val 10" "degC aliased_payload = Val 11"
  "ts aliased_payload = Val ''2024-01-01T00:00:00Z''" "timestamp aliased_payload = Val ''later''"
  "accum_bar_per_h aliased_payload = Val (1/10)" "accum_bar_per_hr aliased_payload = Val (2/10)"
  "P_bar_std aliased_payload = Val (3/2)" "P_bar_abs aliased_payload = Val (8/5)"
  "relief_count aliased_payload = Val 4" "event aliased_payload = Val ''relief''"
  by (simp_all add: aliased_payload_def scenario_reading_def no_keys_def)

text \<open>
  C10 at a payload that carries every canonical key and, beside them, the aliases
  \<^verbatim>\<open>C\<close>, \<^verbatim>\<open>\<degree>C\<close>, \<^verbatim>\<open>timestamp\<close> and \<^verbatim>\<open>accum_bar_per_hr\<close> with other values: the canonical
  values survive.
\<close>

theorem C10_witness:
  "normalizeTelemetryPayload (normalizeTelemetryPayload (JObject aliased_payload))
     = normalizeTelemetryPayload (JObject aliased_payload)
   \<and> map_option T_C (properties (normalizeTelemetryPayload (JObject aliased_payload)))
        = Some (Val 39)
   \<and> map_option ts (properties (normalizeTelemetryPayload (JObject aliased_payload)))
        = Some (Val ''2024-01-01T00:00:00Z'')
   \<and> map_option accum_bar_per_h (properties (normalizeTelemetryPayload (JObject aliased_payload)))
        = Some (Val (1/10))
   \<and> map_option P_bar_std (properties (normalizeTelemetryPayload (JObject aliased_payload)))
        = Some (Val (3/2))
   \<and> map_option relief_count (properties (normalizeTelemetryPayload (JObject aliased_payload)))
        = Some (Val 4)
   \<and> map_option event (properties (normalizeTelemetryPayload (JObject aliased_payload)))
        = Some (Val ''relief'')"
proof -
  from C10_normalize_idempotent_canonical [of "JObject aliased_payload" aliased_payload]
  obtain q where idem:
      "normalizeTelemetryPayload (normalizeTelemetryPayload (JObject aliased_payload))
         = normalizeTelemetryPayload (JObject aliased_payload)"
    and q: "normalizeTelemetryPayload (JObject aliased_payload) = JObject q"
    and k: "T_C aliased_payload \<noteq> Undefined \<longrightarrow> T_C q = T_C aliased_payload"
       "ts aliased_payload \<noteq> Undefined \<longrightarrow> ts q = ts aliased_payload"
       "accum_bar_per_h aliased_payload \<noteq> Undefined
          \<longrightarrow> accum_bar_per_h q = accum_bar_per_h aliased_payload"
       "P_bar_std aliased_payload \<noteq> Undefined \<longrightarrow> P_bar_std q = P_bar_std aliased_payload"
       "relief_count aliased_payload \<noteq> Undefined
          \<longrightarrow> relief_count q = relief_count aliased_payload"
       "event aliased_payload \<noteq> Undefined \<longrightarrow> event q = event aliased_payload"
    by blast
  from k have "T_C q = Val 39" "ts q = Val ''2024-01-01T00:00:00Z''"
    "accum_bar_per_h q = Val (1/10)" "P_bar_std q = Val (3/2)" "relief_count q = Val 4"
    "event q = Val ''relief''"
    by (simp_all add: aliased_fields)
  with idem q show ?thesis by simp
qed

section \<open>Validator: the temperature range\<close>

lemma validate_at_temperature:
  "validateTelemetryData initial_alert_config (JObject (reading_at_temperature t))
     = Some (30 \<le> t \<and> t \<le> 45)"
  by (auto simp add: validateTelemetryData_def validate_object_def reading_at_temperature_def
      scenario_reading_def no_keys_def missing_def initial_alert_config_def temp_min_of_def
      temp_max_of_def MAX_PRESSURE_def)

text \<open>
  C8, as stated, fails: the range is not extended by any tolerance band. With the
  default range 30 to 45, a Reading at 29.99 is rejected, and no positive band width
  \<open>tol\<close> describes what the Validator accepts.
\<close>

theorem C8_no_tolerance_band:
  "validateTelemetryData initial_alert_config (JObject (reading_at_temperature (2999/100)))
     = Some False
   \<and> \<not> (\<exists>tol>0. \<forall>t. validateTelemetryData initial_alert_config
                          (JObject (reading_at_temperature t))
                      = Some (30 - tol \<le> t \<and> t \<le> 45 + tol))"
proof
  show "validateTelemetryData initial_alert_config (JObject (reading_at_temperature (2999/100)))
          = Some False"
    by (simp add: validate_at_temperature)
next
  show "\<not> (\<exists>tol>0. \<forall>t. validateTelemetryData initial_alert_config
                          (JObject (reading_at_temperature t))
                      = Some (30 - tol \<le> t \<and> t \<le> 45 + tol))"
  proof
    assume "\<exists>tol>0. \<forall>t. validateTelemetryData initial_alert_config
                          (JObject (reading_at_temperature t))
                      = Some (30 - tol \<le> t \<and> t \<le> 45 + tol)"
    then obtain tol where tol: "tol > 0"
      and all: "\<And>t. validateTelemetryData initial_alert_config
                       (JObject (reading_at_temperature t))
                   = Some (30 - tol \<le> t \<and> t \<le> 45 + tol)"
      by blast
    have "Some (30 \<le> 30 - tol \<and> 30 - tol \<le> 45)
            = Some (30 - tol \<le> 30 - tol \<and> 30 - tol \<le> 45 + tol)"
      using validate_at_temperature [of "30 - tol"] all [of "30 - tol"] by simp
    with tol show False by simp
  qed
qed

text \<open>
  C8, amended. For a Reading whose six required fields are present and whose pressure
  lies in the envelope 0.5 to 2.0, the Validator accepts exactly when the temperature
  lies in the closed range from \<^verbatim>\<open>temperatureRange.min\<close> to \<^verbatim>\<open>temperatureRange.max\<close> of the
  configuration (with the fallbacks 30 and 45), with no tolerance: the two bounds are
  accepted and every temperature outside the range is rejected.
\<close>

theorem C8_validator_temperature_range:
  assumes "msg_id d = Val m" and "assay_id d = Val a" and "flask_id d = Val f"
    and "ts d = Val w" and "P_bar_abs d = Val p" and "1/2 \<le> p" and "p \<le> 2"
    and "T_C d = Val t"
  shows "validateTelemetryData cfg (JObject d)
           = Some (temp_min_of cfg \<le> t \<and> t \<le> temp_max_of cfg)"
  using assms
  by (auto simp add: validateTelemetryData_def validate_object_def missing_def MAX_PRESSURE_def)

lemma reading_at_temperature_fields:
  "msg_id (reading_at_temperature t) = Val ''a''"
  "assay_id (reading_at_temperature t) = Val ''X''"
  "flask_id (reading_at_temperature t) = Val 1"
  "ts (reading_at_temperature t) = Val ''2024-01-01T00:00:00Z''"
  "P_bar_abs (reading_at_temperature t) = Val (8/5)"
  "T_C (reading_at_temperature t) = Val t"
  by (simp_all add: reading_at_temperature_def scenario_reading_def no_keys_def)

lemma initial_temperature_bounds:
  "temp_min_of initial_alert_config = 30" "temp_max_of initial_alert_config = 45"
  by (simp_all add: temp_min_of_def temp_max_of_def initial_alert_config_def)

text \<open>
  C8 (amended) at the default configuration: the scenario Reading is accepted at
  exactly 30 and at exactly 45, and rejected at 45.01.
\<close>

theorem C8_witness:
  "validateTelemetryData initial_alert_config (JObject (reading_at_temperature 30)) = Some True
   \<and> validateTelemetryData initial_alert_config (JObject (reading_at_temperature 45)) = Some True
   \<and> validateTelemetryData initial_alert_config (JObject (reading_at_temperature (4501/100)))
        = Some False"
proof -
  have h: "(1/2::rat) \<le> 8/5" "(8/5::rat) \<le> 2" by simp_all
  have "validateTelemetryData initial_alert_config (JObject (reading_at_temperature t))
          = Some (temp_min_of initial_alert_config \<le> t \<and> t \<le> temp_max_of initial_alert_config)"
    for t
    by (rule C8_validator_temperature_range [OF reading_at_temperature_fields(1-5) h
          reading_at_temperature_fields(6)])
  then show ?thesis by (simp add: initial_temperature_bounds)
qed

section \<open>Alert evaluator\<close>

lemma saveAlert_fields:
  "alerts_table (saveAlert a s)
     = alerts_table s @ [a\<lparr> alert_id := Some (length (alerts_table s) + 1) \<rparr>]"
  "ws_sent (saveAlert a s)
     = ws_sent s @ [New_alert (a\<lparr> alert_id := Some (length (alerts_table s) + 1) \<rparr>)]"
  "telemetry (saveAlert a s) = telemetry s"
  "flaskStates (saveAlert a s) = flaskStates s"
  "alertConfig (saveAlert a s) = alertConfig s"
  "telemetryCaptureEnabled (saveAlert a s) = telemetryCaptureEnabled s"
  "mqtt_published (saveAlert a s) = mqtt_published s"
  by (simp_all add: saveAlert_def broadcastToWebSocket_def Let_def)

lemma fire_alert_fields:
  "alerts_table (fire_alert d a s)
     = alerts_table s @ [a\<lparr> alert_id := Some (length (alerts_table s) + 1) \<rparr>]"
  "ws_sent (fire_alert d a s)
     = ws_sent s @ [New_alert (a\<lparr> alert_id := Some (length (alerts_table s) + 1) \<rparr>)]"
  "telemetry (fire_alert d a s) = telemetry s"
  "flaskStates (fire_alert d a s) = flaskStates s"
  "alertConfig (fire_alert d a s) = alertConfig s"
  "telemetryCaptureEnabled (fire_alert d a s) = telemetryCaptureEnabled s"
  by (simp_all add: fire_alert_def mqtt_publish_def saveAlert_fields)

lemma fold_fire_alert_fields:
  "alerts_table (fold (fire_alert d) as s)
     = alerts_table s @ with_ids (length (alerts_table s)) as"
  "ws_sent (fold (fire_alert d) as s)
     = ws_sent s @ map New_alert (with_ids (length (alerts_table s)) as)"
  "telemetry (fold (fire_alert d) as s) = telemetry s"
  "flaskStates (fold (fire_alert d) as s) = flaskStates s"
  "alertConfig (fold (fire_alert d) as s) = alertConfig s"
  "telemetryCaptureEnabled (fold (fire_alert d) as s) = telemetryCaptureEnabled s"
  by (induction as arbitrary: s) (simp_all add: fire_alert_fields)

lemma saveTelemetryData_fields:
  "alerts_table (saveTelemetryData d s) = alerts_table s"
  "ws_sent (saveTelemetryData d s) = ws_sent s"
  "flaskStates (saveTelemetryData d s) = flaskStates s"
  "alertConfig (saveTelemetryData d s) = alertConfig s"
  "telemetryCaptureEnabled (saveTelemetryData d s) = telemetryCaptureEnabled s"
  by (simp_all add: saveTelemetryData_def Let_def)

lemma updateFlaskState_fields:
  "alerts_table (updateFlaskState d s) = alerts_table s"
  "ws_sent (updateFlaskState d s) = ws_sent s"
  "telemetry (updateFlaskState d s) = telemetry s"
  "alertConfig (updateFlaskState d s) = alertConfig s"
  "telemetryCaptureEnabled (updateFlaskState d s) = telemetryCaptureEnabled s"
  by (simp_all add: updateFlaskState_def Let_def split: option.splits)

text \<open>What validation establishes.\<close>

lemma validate_objectD:
  assumes "validate_object cfg d"
  shows "\<exists>m a f w p t. msg_id d = Val m \<and> assay_id d = Val a \<and> flask_id d = Val f \<and> ts d = Val w
     \<and> P_bar_abs d = Val p \<and> 1/2 \<le> p \<and> p \<le> 2 \<and> T_C d = Val t
     \<and> temp_min_of cfg \<le> t \<and> t \<le> temp_max_of cfg"
proof -
  from assms have m: "\<not> missing (msg_id d)" "\<not> missing (assay_id d)" "\<not> missing (flask_id d)"
    "\<not> missing (ts d)" "\<not> missing (P_bar_abs d)" "\<not> missing (T_C d)"
    and pr: "\<not> lt_num (P_bar_abs d) (1/2)" "\<not> gt_num (P_bar_abs d) MAX_PRESSURE"
    and tr: "\<not> lt_num (T_C d) (temp_min_of cfg)" "\<not> gt_num (T_C d) (temp_max_of cfg)"
    by (auto simp add: validate_object_def split: if_splits)
  from m obtain mm a f w p t where v: "msg_id d = Val mm" "assay_id d = Val a" "flask_id d = Val f"
    "ts d = Val w" "P_bar_abs d = Val p" "T_C d = Val t"
    unfolding missing_def by (metis field.exhaust)
  with pr tr show ?thesis by (auto simp add: MAX_PRESSURE_def)
qed

lemma validate_JObject:
  "validateTelemetryData cfg (JObject d) = Some b \<longleftrightarrow> validate_object cfg d = b"
  by (auto simp add: validateTelemetryData_def)

lemma checkAlerts_list_valid:
  assumes "validate_object cfg d" and "P_bar_abs d = Val p"
  shows "checkAlerts_list cfg d
           = Some ((if p > relief_threshold_of cfg
                    then [\<lparr> alert_id = None, alert_flask_id = flask_id d,
                            alert_type = ''high_pressure'', alert_message = PressaoAlta p,
                            severity = ''warning'', acknowledged = None \<rparr>]
                    else []) @ relief_rule d)"
proof -
  from validate_objectD [OF assms(1)] assms(2)
  obtain t where "T_C d = Val t" "temp_min_of cfg \<le> t" "t \<le> temp_max_of cfg" by auto
  then have "temperature_rule cfg d = []" by (simp add: temperature_rule_def)
  with assms(2) show ?thesis
    by (simp add: checkAlerts_list_def high_pressure_rule_def)
qed

text \<open>
  C5. For a valid Reading with pressure \<open>p\<close>, \<^verbatim>\<open>checkAlerts\<close> returns, and the alerts it
  saves and broadcasts contain no \<^verbatim>\<open>high_pressure\<close> alert when \<open>p\<close> equals
  \<^verbatim>\<open>pressureReliefThreshold\<close>, and exactly one, with severity \<^verbatim>\<open>warning\<close>, when \<open>p\<close> is
  strictly greater.
\<close>

theorem C5_threshold_is_strict:
  assumes "validateTelemetryData (alertConfig s) (JObject d) = Some True"
    and "P_bar_abs d = Val p"
  shows "\<exists>fired s'. checkAlerts d s = (Returned, s')
           \<and> alerts_table s' = alerts_table s @ fired
           \<and> ws_sent s' = ws_sent s @ map New_alert fired
           \<and> (p = relief_threshold_of (alertConfig s) \<longrightarrow> filter is_high_pressure fired = [])
           \<and> (p > relief_threshold_of (alertConfig s) \<longrightarrow>
                (\<exists>a. filter is_high_pressure fired = [a] \<and> severity a = ''warning''
                      \<and> alert_flask_id a = flask_id d))"
proof -
  let ?n = "length (alerts_table s)"
  from assms(1) have valid: "validate_object (alertConfig s) d"
    by (simp add: validate_JObject)
  obtain as where as: "checkAlerts_list (alertConfig s) d = Some as"
    and eq: "p = relief_threshold_of (alertConfig s) \<longrightarrow> filter is_high_pressure (with_ids ?n as) = []"
    and gt: "p > relief_threshold_of (alertConfig s) \<longrightarrow>
                (\<exists>a. filter is_high_pressure (with_ids ?n as) = [a] \<and> severity a = ''warning''
                      \<and> alert_flask_id a = flask_id d)"
    using checkAlerts_list_valid [OF valid assms(2)]
    by (simp add: relief_rule_def is_high_pressure_def)
  have "checkAlerts d s = (Returned, fold (fire_alert d) as s)"
    by (simp add: checkAlerts_def as)
  with eq gt show ?thesis
    by (intro exI [of _ "with_ids ?n as"] exI [of _ "fold (fire_alert d) as s"])
      (simp add: fold_fire_alert_fields)
qed

lemma reading_at_pressure_fields:
  "msg_id (reading_at_pressure p) = Val ''a''"
  "assay_id (reading_at_pressure p) = Val ''X''"
  "flask_id (reading_at_pressure p) = Val 1"
  "ts (reading_at_pressure p) = Val ''2024-01-01T00:00:00Z''"
  "P_bar_abs (reading_at_pressure p) = Val p"
  "T_C (reading_at_pressure p) = Val 39"
  "event (reading_at_pressure p) = Undefined"
  "relief_count (reading_at_pressure p) = Undefined"
  by (simp_all add: reading_at_pressure_def scenario_reading_def no_keys_def)

lemma initial_state_fields:
  "alertConfig initial_state = initial_alert_config"
  "alerts_table initial_state = []"
  "ws_sent initial_state = []"
  "telemetry initial_state = []"
  "telemetryCaptureEnabled initial_state = False"
  by (simp_all add: initial_state_def)

lemma initial_relief_threshold: "relief_threshold_of initial_alert_config = 3/2"
  by (simp add: relief_threshold_of_def initial_alert_config_def)

lemma validate_at_pressure:
  "validateTelemetryData initial_alert_config (JObject (reading_at_pressure p))
     = Some (1/2 \<le> p \<and> p \<le> 2)"
  by (auto simp add: validateTelemetryData_def validate_object_def reading_at_pressure_fields
      missing_def initial_temperature_bounds MAX_PRESSURE_def)

text \<open>
  C5 at the default threshold 1.5: the scenario Reading at exactly 1.5 fires no
  \<^verbatim>\<open>high_pressure\<close> alert, at 1.6 it fires one with severity \<^verbatim>\<open>warning\<close>.
\<close>

theorem C5_witness:
  "filter is_high_pressure (alerts_table (snd (checkAlerts (reading_at_pressure (3/2)) initial_state)))
     = []
   \<and> map severity (filter is_high_pressure
        (alerts_table (snd (checkAlerts (reading_at_pressure (8/5)) initial_state))))
     = [''warning'']"
proof -
  have v1: "validateTelemetryData (alertConfig initial_state) (JObject (reading_at_pressure (3/2)))
              = Some True"
    and v2: "validateTelemetryData (alertConfig initial_state) (JObject (reading_at_pressure (8/5)))
              = Some True"
    by (simp_all add: initial_state_fields validate_at_pressure)
  from C5_threshold_is_strict [OF v1 reading_at_pressure_fields(5)]
  have a: "filter is_high_pressure
             (alerts_table (snd (checkAlerts (reading_at_pressure (3/2)) initial_state))) = []"
    by (auto simp add: initial_state_fields initial_relief_threshold)
  from C5_threshold_is_strict [OF v2 reading_at_pressure_fields(5)]
  have b: "map severity (filter is_high_pressure
        (alerts_table (snd (checkAlerts (reading_at_pressure (8/5)) initial_state))))
     = [''warning'']"
    by (auto simp add: initial_state_fields initial_relief_threshold)
  from a b show ?thesis by simp
qed

section \<open>Processing valid Readings\<close>

lemma mqtt_publish_fields:
  "alerts_table (mqtt_publish m s) = alerts_table s"
  "ws_sent (mqtt_publish m s) = ws_sent s"
  "telemetry (mqtt_publish m s) = telemetry s"
  "flaskStates (mqtt_publish m s) = flaskStates s"
  "alertConfig (mqtt_publish m s) = alertConfig s"
  "telemetryCaptureEnabled (mqtt_publish m s) = telemetryCaptureEnabled s"
  by (simp_all add: mqtt_publish_def)

lemma broadcastToWebSocket_fields:
  "alerts_table (broadcastToWebSocket e s) = alerts_table s"
  "ws_sent (broadcastToWebSocket e s) = ws_sent s @ [e]"
  "telemetry (broadcastToWebSocket e s) = telemetry s"
  "flaskStates (broadcastToWebSocket e s) = flaskStates s"
  "alertConfig (broadcastToWebSocket e s) = alertConfig s"
  "telemetryCaptureEnabled (broadcastToWebSocket e s) = telemetryCaptureEnabled s"
  by (simp_all add: broadcastToWebSocket_def)

lemma updateFlaskState_snapshot:
  "\<exists>st. flaskStates (updateFlaskState d s) (flask_id d) = Some st
        \<and> last_pressure st = P_bar_abs d \<and> last_temperature st = T_C d
        \<and> last_timestamp st = ts d"
  by (simp add: updateFlaskState_def Let_def split: option.splits)

lemma updateFlaskState_other:
  "f \<noteq> flask_id d \<Longrightarrow> flaskStates (updateFlaskState d s) f = flaskStates s f"
  by (simp add: updateFlaskState_def Let_def split: option.splits)

lemma updateFlaskState_flaskStates_cong:
  "flaskStates s = flaskStates t
   \<Longrightarrow> flaskStates (updateFlaskState d s) = flaskStates (updateFlaskState d t)"
  by (simp add: updateFlaskState_def Let_def split: option.splits)

lemma process_valid:
  assumes "validate_object (alertConfig s) d"
  shows "\<exists>as. checkAlerts_list (alertConfig s) d = Some as
            \<and> processTelemetryData (JObject d) ns s = (Returned, processed d ns as s)"
proof -
  from validate_objectD [OF assms] obtain p where p: "P_bar_abs d = Val p" by blast
  let ?s2 = "updateFlaskState d (if telemetryCaptureEnabled s then saveTelemetryData d s else s)"
  have cfg: "alertConfig ?s2 = alertConfig s"
    by (simp add: updateFlaskState_fields saveTelemetryData_fields)
  obtain as where as: "checkAlerts_list (alertConfig s) d = Some as"
    using checkAlerts_list_valid [OF assms p] by blast
  then have "checkAlerts d ?s2 = (Returned, fold (fire_alert d) as ?s2)"
    by (simp add: checkAlerts_def cfg)
  with assms as show ?thesis
    by (simp add: processTelemetryData_def validateTelemetryData_def processed_def Let_def)
qed

lemma processed_fields:
  "telemetry (processed d ns as s)
     = telemetry (if telemetryCaptureEnabled s then saveTelemetryData d s else s)"
  "alerts_table (processed d ns as s) = alerts_table s @ with_ids (length (alerts_table s)) as"
  "ws_sent (processed d ns as s)
     = ws_sent s @ map New_alert (with_ids (length (alerts_table s)) as) @ [Telemetry (JObject d)]"
  "flaskStates (processed d ns as s) = flaskStates (updateFlaskState d s)"
  "alertConfig (processed d ns as s) = alertConfig s"
  "telemetryCaptureEnabled (processed d ns as s) = telemetryCaptureEnabled s"
  by (simp_all add: processed_def mqtt_publish_fields broadcastToWebSocket_fields
      fold_fire_alert_fields updateFlaskState_fields saveTelemetryData_fields
      updateFlaskState_flaskStates_cong [of "saveTelemetryData d s" s])

lemma process_invalid:
  "validateTelemetryData (alertConfig s) data = Some False
   \<Longrightarrow> processTelemetryData data ns s = (Returned, s)"
  by (simp add: processTelemetryData_def)

lemma filter_telemetry_new_alerts [simp]: "filter is_telemetry (map New_alert as) = []"
  by (induction as) simp_all

lemma filter_new_alert_new_alerts [simp]: "filter is_new_alert (map New_alert as) = map New_alert as"
  by (induction as) simp_all

lemma length_with_ids [simp]: "length (with_ids n as) = length as"
  by (induction as arbitrary: n) simp_all

lemma last_for_snoc:
  "last_for f (ds @ [x]) = (if flask_id x = f then Some x else last_for f ds)"
  by (simp add: last_for_def)

lemma process_all_snoc:
  "process_all ns (ds @ [d]) s = snd (processTelemetryData d ns (process_all ns ds s))"
  by (simp add: process_all_def)

lemma process_all_valid:
  assumes "\<not> telemetryCaptureEnabled s"
    and "list_all (\<lambda>d. validateTelemetryData (alertConfig s) (JObject d) = Some True) ds"
  shows "alertConfig (process_all ns (map JObject ds) s) = alertConfig s
       \<and> \<not> telemetryCaptureEnabled (process_all ns (map JObject ds) s)
       \<and> telemetry (process_all ns (map JObject ds) s) = telemetry s
       \<and> filter is_telemetry (ws_sent (process_all ns (map JObject ds) s))
            = filter is_telemetry (ws_sent s) @ map (\<lambda>d. Telemetry (JObject d)) ds
       \<and> (\<forall>f d. last_for f ds = Some d \<longrightarrow>
             (\<exists>st. flaskStates (process_all ns (map JObject ds) s) f = Some st
                   \<and> last_pressure st = P_bar_abs d \<and> last_temperature st = T_C d
                   \<and> last_timestamp st = ts d))"
  using assms(2)
proof (induction ds rule: rev_induct)
  case Nil
  with assms(1) show ?case by (simp add: process_all_def last_for_def)
next
  case (snoc x ds)
  let ?t = "process_all ns (map JObject ds) s"
  from snoc.prems have vx: "validate_object (alertConfig s) x"
    and rest: "list_all (\<lambda>d. validateTelemetryData (alertConfig s) (JObject d) = Some True) ds"
    by (simp_all add: validate_JObject)
  note IH = snoc.IH [OF rest]
  from IH have cfg: "alertConfig ?t = alertConfig s" and off: "\<not> telemetryCaptureEnabled ?t"
    by simp_all
  from vx cfg have "validate_object (alertConfig ?t) x" by simp
  from process_valid [OF this, of ns] obtain as
    where step: "processTelemetryData (JObject x) ns ?t = (Returned, processed x ns as ?t)"
    by blast
  have eq: "process_all ns (map JObject (ds @ [x])) s = processed x ns as ?t"
    by (simp add: process_all_snoc step)
  have snap: "\<exists>st. flaskStates (processed x ns as ?t) f = Some st
                   \<and> last_pressure st = P_bar_abs d \<and> last_temperature st = T_C d
                   \<and> last_timestamp st = ts d"
    if l: "last_for f (ds @ [x]) = Some d" for f d
  proof (cases "flask_id x = f")
    case True
    with l have "d = x" by (simp add: last_for_snoc)
    with True updateFlaskState_snapshot [of x ?t] show ?thesis
      by (simp add: processed_fields)
  next
    case False
    with l have "last_for f ds = Some d" by (simp add: last_for_snoc)
    with IH obtain st where "flaskStates ?t f = Some st" "last_pressure st = P_bar_abs d"
      "last_temperature st = T_C d" "last_timestamp st = ts d" by blast
    with False show ?thesis
      by (simp add: processed_fields updateFlaskState_other)
  qed
  from IH off snap show ?case
    unfolding eq by (simp add: processed_fields)
qed

text \<open>
  C4. While capture is disabled, processing \<open>N\<close> valid Readings leaves table
  \<^verbatim>\<open>telemetry\<close> as it was, broadcasts one \<^verbatim>\<open>telemetry\<close> envelope per Reading, in order
  (\<open>N\<close> in all), and leaves for every station named by a Reading a snapshot holding
  the pressure, temperature and timestamp of the last Reading of that station.
\<close>

theorem C4_capture_disabled:
  assumes "\<not> telemetryCaptureEnabled s"
    and "list_all (\<lambda>d. validateTelemetryData (alertConfig s) (JObject d) = Some True) ds"
  shows "telemetry (process_all ns (map JObject ds) s) = telemetry s
       \<and> filter is_telemetry (ws_sent (process_all ns (map JObject ds) s))
            = filter is_telemetry (ws_sent s) @ map (\<lambda>d. Telemetry (JObject d)) ds
       \<and> (\<forall>f d. last_for f ds = Some d \<longrightarrow>
             (\<exists>st. flaskStates (process_all ns (map JObject ds) s) f = Some st
                   \<and> last_pressure st = P_bar_abs d \<and> last_temperature st = T_C d
                   \<and> last_timestamp st = ts d))"
  using process_all_valid [OF assms] by blast

lemma validate_scenario_variants:
  "validate_object initial_alert_config scenario_reading"
  "validate_object initial_alert_config
     (scenario_reading\<lparr> msg_id := Val ''b'', flask_id := Val 2, P_bar_abs := Val (7/5) \<rparr>)"
  by (simp_all add: validate_object_def scenario_reading_def no_keys_def missing_def
      initial_temperature_bounds MAX_PRESSURE_def)

text \<open>
  C4 at the start-up state (capture disabled) and two valid Readings of stations 1
  and 2: no row, two \<^verbatim>\<open>telemetry\<close> envelopes, both snapshots updated.
\<close>

theorem C4_witness:
  "telemetry (process_all ''ankom'' (map JObject two_readings) initial_state) = []
   \<and> length (filter is_telemetry
        (ws_sent (process_all ''ankom'' (map JObject two_readings) initial_state))) = 2
   \<and> map_option last_pressure
        (flaskStates (process_all ''ankom'' (map JObject two_readings) initial_state) (Val 1))
       = Some (Val (8/5))
   \<and> map_option last_pressure
        (flaskStates (process_all ''ankom'' (map JObject two_readings) initial_state) (Val 2))
       = Some (Val (7/5))"
proof -
  have off: "\<not> telemetryCaptureEnabled initial_state"
    by (simp add: initial_state_fields)
  have valid: "list_all (\<lambda>d. validateTelemetryData (alertConfig initial_state) (JObject d) = Some True)
                 two_readings"
    by (simp add: two_readings_def initial_state_fields validate_JObject validate_scenario_variants)
  have l1: "last_for (Val 1) two_readings = Some scenario_reading"
    and l2: "last_for (Val 2) two_readings
               = Some (scenario_reading\<lparr> msg_id := Val ''b'', flask_id := Val 2,
                                         P_bar_abs := Val (7/5) \<rparr>)"
    by (simp_all add: last_for_def two_readings_def scenario_reading_def no_keys_def)
  note C = C4_capture_disabled [OF off valid, of "''ankom''"]
  from C have a: "telemetry (process_all ''ankom'' (map JObject two_readings) initial_state) = []"
    by (simp add: initial_state_fields)
  from C have b: "length (filter is_telemetry
        (ws_sent (process_all ''ankom'' (map JObject two_readings) initial_state))) = 2"
    by (simp add: initial_state_fields two_readings_def)
  from C l1 obtain st1 where
    "flaskStates (process_all ''ankom'' (map JObject two_readings) initial_state) (Val 1) = Some st1"
    "last_pressure st1 = P_bar_abs scenario_reading" by blast
  then have c: "map_option last_pressure
        (flaskStates (process_all ''ankom'' (map JObject two_readings) initial_state) (Val 1))
       = Some (Val (8/5))"
    by (simp add: scenario_reading_def no_keys_def)
  from C l2 obtain st2 where
    "flaskStates (process_all ''ankom'' (map JObject two_readings) initial_state) (Val 2) = Some st2"
    "last_pressure st2 = P_bar_abs (scenario_reading\<lparr> msg_id := Val ''b'', flask_id := Val 2,
                                         P_bar_abs := Val (7/5) \<rparr>)" by blast
  then have d: "map_option last_pressure
        (flaskStates (process_all ''ankom'' (map JObject two_readings) initial_state) (Val 2))
       = Some (Val (7/5))"
    by simp
  from a b c d show ?thesis by simp
qed

section \<open>Idempotent persistence\<close>

lemma row_msg_id_of: "row_msg_id (telemetry_row_of d) = sql (msg_id d)"
  by (simp add: telemetry_row_of_def)

lemma rows_with_empty_iff:
  "rows_with m s = [] \<longleftrightarrow> Some m \<notin> set (map row_msg_id (telemetry s))"
  by (force simp add: rows_with_def filter_empty_conv)

lemma saveTelemetryData_rows:
  assumes "msg_id d = Val m" and "length (rows_with m s) \<le> 1"
  shows "length (rows_with m (saveTelemetryData d s)) = 1"
proof (cases "rows_with m s = []")
  case True
  then have "\<not> unique_violation (telemetry s) (telemetry_row_of d)"
    by (simp add: unique_violation_def row_msg_id_of assms(1) rows_with_empty_iff)
  then have "telemetry (saveTelemetryData d s) = telemetry s @ [telemetry_row_of d]"
    by (simp add: saveTelemetryData_def Let_def)
  with True show ?thesis
    using True by (simp add: rows_with_def row_msg_id_of assms(1))
next
  case False
  then have "unique_violation (telemetry s) (telemetry_row_of d)"
    by (simp add: unique_violation_def row_msg_id_of assms(1) rows_with_empty_iff)
  then have "telemetry (saveTelemetryData d s) = telemetry s"
    by (simp add: saveTelemetryData_def Let_def)
  then have "rows_with m (saveTelemetryData d s) = rows_with m s"
    by (simp add: rows_with_def)
  with False assms(2) show ?thesis
    by (cases "rows_with m s") simp_all
qed

lemma saveTelemetryData_refused:
  assumes "msg_id d = Val m" and "rows_with m s \<noteq> []"
  shows "telemetry (saveTelemetryData d s) = telemetry s"
proof -
  from assms have "unique_violation (telemetry s) (telemetry_row_of d)"
    by (simp add: unique_violation_def row_msg_id_of rows_with_empty_iff)
  then show ?thesis by (simp add: saveTelemetryData_def Let_def)
qed

lemma rows_with_cong: "telemetry s = telemetry t \<Longrightarrow> rows_with m s = rows_with m t"
  by (simp add: rows_with_def)

lemma process_twice:
  assumes valid: "validate_object (alertConfig s) d"
    and cap: "telemetryCaptureEnabled s"
    and m: "msg_id d = Val m"
    and uniq: "length (rows_with m s) \<le> 1"
  shows "\<exists>as. checkAlerts_list (alertConfig s) d = Some as
           \<and> length (rows_with m (process_all ns [JObject d] s)) = 1
           \<and> telemetry (process_all ns [JObject d, JObject d] s)
                = telemetry (process_all ns [JObject d] s)
           \<and> alerts_table (process_all ns [JObject d] s)
                = alerts_table s @ with_ids (length (alerts_table s)) as
           \<and> alerts_table (process_all ns [JObject d, JObject d] s)
                = alerts_table (process_all ns [JObject d] s)
                    @ with_ids (length (alerts_table s) + length as) as"
proof -
  from process_valid [OF valid, of ns] obtain as
    where as: "checkAlerts_list (alertConfig s) d = Some as"
      and s1: "processTelemetryData (JObject d) ns s = (Returned, processed d ns as s)"
    by blast
  let ?s1 = "processed d ns as s"
  have cfg1: "alertConfig ?s1 = alertConfig s" and cap1: "telemetryCaptureEnabled ?s1"
    using cap by (simp_all add: processed_fields)
  from valid cfg1 have "validate_object (alertConfig ?s1) d" by simp
  from process_valid [OF this, of ns] as cfg1
  have s2: "processTelemetryData (JObject d) ns ?s1 = (Returned, processed d ns as ?s1)"
    by simp
  have one: "process_all ns [JObject d] s = ?s1"
    by (simp add: process_all_def s1)
  have two: "process_all ns [JObject d, JObject d] s = processed d ns as ?s1"
    by (simp add: process_all_def s1 s2)
  have t1: "telemetry ?s1 = telemetry (saveTelemetryData d s)"
    using cap by (simp add: processed_fields)
  have r1: "length (rows_with m ?s1) = 1"
    using saveTelemetryData_rows [OF m uniq] rows_with_cong [OF t1] by simp
  then have "rows_with m ?s1 \<noteq> []" by auto
  from saveTelemetryData_refused [OF m this]
  have t2: "telemetry (processed d ns as ?s1) = telemetry ?s1"
    using cap1 by (simp add: processed_fields)
  have a1: "alerts_table ?s1 = alerts_table s @ with_ids (length (alerts_table s)) as"
    by (simp add: processed_fields)
  have a2: "alerts_table (processed d ns as ?s1)
              = alerts_table ?s1 @ with_ids (length (alerts_table s) + length as) as"
    by (simp add: processed_fields)
  from as r1 t2 a1 a2 show ?thesis
    unfolding one two by blast
qed

text \<open>
  C2, amended. For a valid Reading, while capture is enabled and the table holds at
  most one row with its \<^verbatim>\<open>msg_id\<close>, processing the Reading twice leaves exactly one row
  with that \<^verbatim>\<open>msg_id\<close>: one after the first processing, and the second insert is refused
  by the \<^verbatim>\<open>UNIQUE\<close> constraint and leaves the table unchanged.
\<close>

theorem C2_one_row_per_msg_id:
  assumes "validateTelemetryData (alertConfig s) (JObject d) = Some True"
    and "telemetryCaptureEnabled s"
    and "msg_id d = Val m"
    and "length (rows_with m s) \<le> 1"
  shows "length (rows_with m (process_all ns [JObject d] s)) = 1
       \<and> telemetry (process_all ns [JObject d, JObject d] s)
            = telemetry (process_all ns [JObject d] s)
       \<and> length (rows_with m (process_all ns [JObject d, JObject d] s)) = 1"
proof -
  from assms process_twice [of s d m ns]
  have one: "length (rows_with m (process_all ns [JObject d] s)) = 1"
    and same: "telemetry (process_all ns [JObject d, JObject d] s)
                 = telemetry (process_all ns [JObject d] s)"
    by (auto simp add: validate_JObject)
  from rows_with_cong [OF same, of m] one same show ?thesis by simp
qed

lemma capturing_state_fields:
  "alertConfig capturing_state = initial_alert_config"
  "alerts_table capturing_state = []"
  "ws_sent capturing_state = []"
  "telemetry capturing_state = []"
  "telemetryCaptureEnabled capturing_state"
  by (simp_all add: capturing_state_def openCaptureSession_def initial_state_def Let_def)

lemma scenario_fields:
  "msg_id scenario_reading = Val ''a''"
  "assay_id scenario_reading = Val ''X''"
  "flask_id scenario_reading = Val 1"
  "ts scenario_reading = Val ''2024-01-01T00:00:00Z''"
  "P_bar_abs scenario_reading = Val (8/5)"
  "T_C scenario_reading = Val 39"
  "event scenario_reading = Undefined"
  by (simp_all add: scenario_reading_def no_keys_def)

lemma scenario_alerts:
  "checkAlerts_list initial_alert_config scenario_reading
     = Some [\<lparr> alert_id = None, alert_flask_id = Val 1, alert_type = ''high_pressure'',
               alert_message = PressaoAlta (8/5), severity = ''warning'',
               acknowledged = None \<rparr>]"
  using checkAlerts_list_valid [OF validate_scenario_variants(1) scenario_fields(5)]
  by (simp add: initial_relief_threshold relief_rule_def scenario_fields)

text \<open>
  C2, as stated, fails twice. With capture disabled the scenario Reading processed twice
  leaves no row at all. With capture enabled (1.6 bar, threshold 1.5) it leaves one
  row, but the second processing fires the \<^verbatim>\<open>high_pressure\<close> alert again: one such
  alert after the first processing, two after the second.
\<close>

theorem C2_second_ingestion_fires_again:
  "rows_with ''a''
     (process_all ''ankom'' [JObject scenario_reading, JObject scenario_reading] initial_state) = []
   \<and> length (rows_with ''a''
        (process_all ''ankom'' [JObject scenario_reading, JObject scenario_reading]
           capturing_state)) = 1
   \<and> length (filter is_high_pressure
        (alerts_table (process_all ''ankom'' [JObject scenario_reading] capturing_state))) = 1
   \<and> length (filter is_high_pressure
        (alerts_table (process_all ''ankom'' [JObject scenario_reading, JObject scenario_reading]
           capturing_state))) = 2"
proof -
  have off: "\<not> telemetryCaptureEnabled initial_state"
    by (simp add: initial_state_fields)
  have valid: "list_all (\<lambda>d. validateTelemetryData (alertConfig initial_state) (JObject d) = Some True)
                 [scenario_reading, scenario_reading]"
    by (simp add: initial_state_fields validate_JObject validate_scenario_variants)
  from process_all_valid [OF off valid, of "''ankom''"]
  have none: "rows_with ''a''
     (process_all ''ankom'' [JObject scenario_reading, JObject scenario_reading] initial_state) = []"
    by (simp add: rows_with_def initial_state_fields)
  have v: "validate_object (alertConfig capturing_state) scenario_reading"
    by (simp add: capturing_state_fields validate_scenario_variants)
  have u: "length (rows_with ''a'' capturing_state) \<le> 1"
    by (simp add: rows_with_def capturing_state_fields)
  from process_twice [OF v capturing_state_fields(5) scenario_fields(1) u, of "''ankom''"] none
  show ?thesis
    by (auto simp add: capturing_state_fields scenario_alerts is_high_pressure_def
        rows_with_cong [of "process_all ''ankom'' [JObject scenario_reading, JObject scenario_reading] capturing_state"
          "process_all ''ankom'' [JObject scenario_reading] capturing_state"])
qed

text \<open>
  C2 (amended) at the scenario Reading and the capturing state: one row after the first
  processing and one row after the second.
\<close>

theorem C2_witness:
  "length (rows_with ''a'' (process_all ''ankom'' [JObject scenario_reading] capturing_state)) = 1
   \<and> telemetry (process_all ''ankom'' [JObject scenario_reading, JObject scenario_reading]
        capturing_state)
      = telemetry (process_all ''ankom'' [JObject scenario_reading] capturing_state)
   \<and> length (rows_with ''a''
        (process_all ''ankom'' [JObject scenario_reading, JObject scenario_reading]
           capturing_state)) = 1"
proof -
  have v: "validateTelemetryData (alertConfig capturing_state) (JObject scenario_reading) = Some True"
    by (simp add: capturing_state_fields validate_JObject validate_scenario_variants)
  have u: "length (rows_with ''a'' capturing_state) \<le> 1"
    by (simp add: rows_with_def capturing_state_fields)
  show ?thesis
    by (rule C2_one_row_per_msg_id [OF v capturing_state_fields(5) scenario_fields(1) u])
qed

section \<open>The handler after \<^verbatim>\<open>processTelemetryData\<close>\<close>

lemma handle_valid:
  assumes "validate_object (alertConfig s) (normalize_object r)"
  shows "\<exists>as. checkAlerts_list (alertConfig s) (normalize_object r) = Some as
           \<and> handleMQTTMessage ns (Json (JObject r)) s
               = broadcastToWebSocket (Telemetry (JObject (normalize_object r)))
                   (processed (normalize_object r) ns as s)"
proof -
  let ?d = "normalize_object r"
  from validate_objectD [OF assms] obtain p where p: "P_bar_abs ?d = Val p" "p \<le> 2" by blast
  from process_valid [OF assms, of ns] obtain as
    where as: "checkAlerts_list (alertConfig s) ?d = Some as"
      and pr: "processTelemetryData (JObject ?d) ns s = (Returned, processed ?d ns as s)"
    by blast
  from p have "\<not> p > 5/2" by simp
  with p(1) pr have "handleMQTTMessage ns (Json (JObject r)) s
               = broadcastToWebSocket (Telemetry (JObject ?d)) (processed ?d ns as s)"
    by (simp add: handleMQTTMessage_def Let_def)
  with as show ?thesis by blast
qed

lemma handle_rejected:
  assumes "\<not> validate_object (alertConfig s) (normalize_object r)"
  shows "handleMQTTMessage ns (Json (JObject r)) s
           = (let d = normalize_object r;
                  s2 = broadcastToWebSocket (Telemetry (JObject d)) s
              in case P_bar_abs d of
                   Val p \<Rightarrow>
                     (if p > 5/2
                      then mqtt_publish
                             (Alert_topic (topic_namespace ns) (assay_id d) (flask_id d)
                                (pressure_warning d p))
                             (broadcastToWebSocket (New_alert (pressure_warning d p))
                                (saveAlert (pressure_warning d p) s2))
                      else s2)
                 | Null \<Rightarrow> s2
                 | Undefined \<Rightarrow> s2)"
  using assms
  by (simp add: handleMQTTMessage_def processTelemetryData_def validateTelemetryData_def Let_def
      split: field.splits)

lemma normalized_scenario_fields:
  "msg_id (normalize_object scenario_reading) = Val ''a''"
  "P_bar_abs (normalize_object scenario_reading) = Val (8/5)"
  "event (normalize_object scenario_reading) = Null"
  "flask_id (normalize_object scenario_reading) = Val 1"
  by (simp_all add: normalize_object_eq scenario_fields)

lemma validate_normalized_scenario:
  "validate_object initial_alert_config (normalize_object scenario_reading)"
  by (simp add: validate_object_def normalize_object_eq scenario_fields missing_def
      initial_temperature_bounds MAX_PRESSURE_def)

lemma normalized_scenario_alerts:
  "checkAlerts_list initial_alert_config (normalize_object scenario_reading)
     = Some [\<lparr> alert_id = None, alert_flask_id = Val 1, alert_type = ''high_pressure'',
               alert_message = PressaoAlta (8/5), severity = ''warning'',
               acknowledged = None \<rparr>]"
  using checkAlerts_list_valid [OF validate_normalized_scenario normalized_scenario_fields(2)]
  by (simp add: initial_relief_threshold relief_rule_def normalized_scenario_fields)

text \<open>
  C7, evaluated. From the capturing state (capture enabled, threshold 1.5) the handler is
  given the scenario Reading: one row is persisted, one alert \<^verbatim>\<open>high_pressure\<close> with
  severity \<^verbatim>\<open>warning\<close> is saved, one \<^verbatim>\<open>new_alert\<close> envelope is broadcast, and two
  \<^verbatim>\<open>telemetry\<close> envelopes are broadcast: one by \<^verbatim>\<open>processTelemetryData\<close> (which alone
  sends exactly one) and one more by \<^verbatim>\<open>handleMQTTMessage\<close> after it.
\<close>

theorem C7_scenario_two_telemetry_broadcasts:
  "length (telemetry (handleMQTTMessage ''ankom'' (Json (JObject scenario_reading)) capturing_state)) = 1
   \<and> map alert_type
        (alerts_table (handleMQTTMessage ''ankom'' (Json (JObject scenario_reading)) capturing_state))
       = [''high_pressure'']
   \<and> map severity
        (alerts_table (handleMQTTMessage ''ankom'' (Json (JObject scenario_reading)) capturing_state))
       = [''warning'']
   \<and> length (filter is_new_alert
        (ws_sent (handleMQTTMessage ''ankom'' (Json (JObject scenario_reading)) capturing_state))) = 1
   \<and> length (filter is_telemetry
        (ws_sent (handleMQTTMessage ''ankom'' (Json (JObject scenario_reading)) capturing_state))) = 2
   \<and> length (filter is_telemetry
        (ws_sent (snd (processTelemetryData (normalizeTelemetryPayload (JObject scenario_reading))
           ''ankom'' capturing_state)))) = 1"
proof -
  let ?d = "normalize_object scenario_reading"
  have v: "validate_object (alertConfig capturing_state) ?d"
    by (simp add: capturing_state_fields validate_normalized_scenario)
  from handle_valid [OF v, of "''ankom''"] obtain as
    where as: "checkAlerts_list (alertConfig capturing_state) ?d = Some as"
      and h: "handleMQTTMessage ''ankom'' (Json (JObject scenario_reading)) capturing_state
               = broadcastToWebSocket (Telemetry (JObject ?d))
                   (processed ?d ''ankom'' as capturing_state)"
    by blast
  from as have as_eq: "as = [\<lparr> alert_id = None, alert_flask_id = Val 1,
      alert_type = ''high_pressure'', alert_message = PressaoAlta (8/5), severity = ''warning'',
      acknowledged = None \<rparr>]"
    by (simp add: capturing_state_fields normalized_scenario_alerts)
  from process_valid [OF v, of "''ankom''"] as
  have p: "processTelemetryData (JObject ?d) ''ankom'' capturing_state
             = (Returned, processed ?d ''ankom'' as capturing_state)"
    by simp
  have save: "telemetry (saveTelemetryData ?d capturing_state) = [telemetry_row_of ?d]"
    by (simp add: saveTelemetryData_def Let_def unique_violation_def capturing_state_fields)
  show ?thesis
    unfolding h
    by (simp add: p broadcastToWebSocket_fields processed_fields capturing_state_fields save as_eq)
qed

text \<open>
  C1, evaluated at two rejected Readings. The scenario Reading at 3.0 bar is outside the
  envelope and fails validation: no row is persisted, yet the handler broadcasts it in a
  \<^verbatim>\<open>telemetry\<close> envelope, saves a \<^verbatim>\<open>pressure_warning\<close> alert and broadcasts two
  \<^verbatim>\<open>new_alert\<close> envelopes. The empty object fails validation (every required field is
  missing) and is broadcast in a \<^verbatim>\<open>telemetry\<close> envelope all the same.
\<close>

theorem C1_rejected_reading_is_broadcast:
  "validateTelemetryData (alertConfig capturing_state)
     (normalizeTelemetryPayload (JObject (reading_at_pressure 3))) = Some False
   \<and> telemetry (handleMQTTMessage ''ankom'' (Json (JObject (reading_at_pressure 3))) capturing_state)
       = []
   \<and> filter is_telemetry
        (ws_sent (handleMQTTMessage ''ankom'' (Json (JObject (reading_at_pressure 3))) capturing_state))
       = [Telemetry (normalizeTelemetryPayload (JObject (reading_at_pressure 3)))]
   \<and> map alert_type
        (alerts_table (handleMQTTMessage ''ankom'' (Json (JObject (reading_at_pressure 3)))
           capturing_state))
       = [''pressure_warning'']
   \<and> length (filter is_new_alert
        (ws_sent (handleMQTTMessage ''ankom'' (Json (JObject (reading_at_pressure 3)))
           capturing_state))) = 2
   \<and> validateTelemetryData (alertConfig capturing_state)
        (normalizeTelemetryPayload (JObject no_keys)) = Some False
   \<and> filter is_telemetry
        (ws_sent (handleMQTTMessage ''ankom'' (Json (JObject no_keys)) capturing_state))
       = [Telemetry (normalizeTelemetryPayload (JObject no_keys))]"
proof -
  let ?d = "normalize_object (reading_at_pressure 3)"
  have pd: "P_bar_abs ?d = Val 3"
    by (simp add: normalize_object_eq reading_at_pressure_fields)
  have nv: "\<not> validate_object (alertConfig capturing_state) ?d"
    by (simp add: validate_object_def pd MAX_PRESSURE_def)
  have pn: "P_bar_abs (normalize_object no_keys) = Undefined"
    by (simp add: normalize_object_eq no_keys_def)
  have nn: "\<not> validate_object (alertConfig capturing_state) (normalize_object no_keys)"
    by (simp add: validate_object_def pn missing_def)
  show ?thesis
    by (simp add: handle_rejected [OF nv] handle_rejected [OF nn] validate_JObject
        nv [unfolded capturing_state_fields] nn [unfolded capturing_state_fields] pd pn
        Let_def mqtt_publish_fields broadcastToWebSocket_fields saveAlert_fields
        capturing_state_fields pressure_warning_def)
qed

lemma ingest_snoc:
  "ingest ns (ms @ [m]) s = handleMQTTMessage ns m (ingest ns ms s)"
  by (simp add: ingest_def)

text \<open>The same through the handler: with capture disabled, \<open>N\<close> messages whose normalized
  objects are valid persist nothing, and each is broadcast (twice) in a \<^verbatim>\<open>telemetry\<close>
  envelope.\<close>

lemma ingest_capture_disabled:
  assumes "\<not> telemetryCaptureEnabled s"
    and "list_all (\<lambda>r. validate_object (alertConfig s) (normalize_object r)) rs"
  shows "alertConfig (ingest ns (map (\<lambda>r. Json (JObject r)) rs) s) = alertConfig s
       \<and> \<not> telemetryCaptureEnabled (ingest ns (map (\<lambda>r. Json (JObject r)) rs) s)
       \<and> telemetry (ingest ns (map (\<lambda>r. Json (JObject r)) rs) s) = telemetry s
       \<and> filter is_telemetry (ws_sent (ingest ns (map (\<lambda>r. Json (JObject r)) rs) s))
            = filter is_telemetry (ws_sent s)
                @ concat (map (\<lambda>r. [Telemetry (JObject (normalize_object r)),
                                       Telemetry (JObject (normalize_object r))]) rs)"
  using assms(2)
proof (induction rs rule: rev_induct)
  case Nil
  with assms(1) show ?case by (simp add: ingest_def)
next
  case (snoc x rs)
  let ?t = "ingest ns (map (\<lambda>r. Json (JObject r)) rs) s"
  from snoc.prems have vx: "validate_object (alertConfig s) (normalize_object x)"
    and rest: "list_all (\<lambda>r. validate_object (alertConfig s) (normalize_object r)) rs"
    by simp_all
  note IH = snoc.IH [OF rest]
  from IH have cfg: "alertConfig ?t = alertConfig s" and off: "\<not> telemetryCaptureEnabled ?t"
    by simp_all
  from vx cfg have "validate_object (alertConfig ?t) (normalize_object x)" by simp
  from handle_valid [OF this, of ns] obtain as
    where step: "handleMQTTMessage ns (Json (JObject x)) ?t
                   = broadcastToWebSocket (Telemetry (JObject (normalize_object x)))
                       (processed (normalize_object x) ns as ?t)"
    by blast
  have eq: "ingest ns (map (\<lambda>r. Json (JObject r)) (rs @ [x])) s
              = broadcastToWebSocket (Telemetry (JObject (normalize_object x)))
                  (processed (normalize_object x) ns as ?t)"
    by (simp add: ingest_snoc step)
  from IH off show ?case
    unfolding eq by (simp add: broadcastToWebSocket_fields processed_fields)
qed

section \<open>Capture session controller\<close>

lemma next_session_id_pos: "next_session_id tbl \<noteq> 0"
  by (simp add: next_session_id_def)

lemma open_fields:
  "capture_sessions (openCaptureSession trig a now s)
     = capture_sessions s
         @ [\<lparr> session_id = next_session_id (capture_sessions s), session_status = ''enabled'',
               started_at = Some now, stopped_at = None, session_trigger = or_null trig,
               session_assay_id = or_null a \<rparr>]"
  "currentCaptureSessionId (openCaptureSession trig a now s) = currentCaptureSessionId s"
  "pending_inserts (openCaptureSession trig a now s)
     = pending_inserts s @ [next_session_id (capture_sessions s)]"
  "telemetryCaptureEnabled (openCaptureSession trig a now s)"
  by (simp_all add: openCaptureSession_def Let_def)

lemma open_then_callback:
  assumes "pending_inserts s = []"
  shows "capture_sessions (insert_callback (openCaptureSession trig a now s))
           = capture_sessions (openCaptureSession trig a now s)"
    and "currentCaptureSessionId (insert_callback (openCaptureSession trig a now s))
           = Some (next_session_id (capture_sessions s))"
    and "pending_inserts (insert_callback (openCaptureSession trig a now s)) = []"
    and "telemetryCaptureEnabled (insert_callback (openCaptureSession trig a now s))"
  using assms by (simp_all add: insert_callback_def open_fields)

lemma callback_none_pending: "pending_inserts s = [] \<Longrightarrow> insert_callback s = s"
  by (simp add: insert_callback_def)

lemma close_none:
  "currentCaptureSessionId s = None
   \<Longrightarrow> capture_sessions (closeCaptureSession trig now s) = capture_sessions s
       \<and> currentCaptureSessionId (closeCaptureSession trig now s) = None
       \<and> \<not> telemetryCaptureEnabled (closeCaptureSession trig now s)"
  by (simp add: closeCaptureSession_def)

lemma close_some:
  "currentCaptureSessionId s = Some cur \<Longrightarrow> cur \<noteq> 0
   \<Longrightarrow> capture_sessions (closeCaptureSession trig now s)
         = map (close_row cur trig now) (capture_sessions s)
       \<and> currentCaptureSessionId (closeCaptureSession trig now s) = None
       \<and> \<not> telemetryCaptureEnabled (closeCaptureSession trig now s)"
  by (simp add: closeCaptureSession_def)

lemma close_pending: "pending_inserts (closeCaptureSession trig now s) = pending_inserts s"
  by (simp add: closeCaptureSession_def split: option.splits)

lemma close_row_disables:
  assumes "map session_id (filter (\<lambda>r. session_status r = ''enabled'') rows) = [cur]"
  shows "filter (\<lambda>r. session_status r = ''enabled'') (map (close_row cur trig now) rows) = []"
proof -
  have "session_status (close_row cur trig now r) \<noteq> ''enabled''" if "r \<in> set rows" for r
  proof (cases "session_id r = cur")
    case True
    then show ?thesis by (simp add: close_row_def)
  next
    case False
    have "session_status r \<noteq> ''enabled''"
    proof
      assume "session_status r = ''enabled''"
      with that have "session_id r
          \<in> set (map session_id (filter (\<lambda>r. session_status r = ''enabled'') rows))"
        by simp
      with assms False show False by simp
    qed
    with False show ?thesis by (simp add: close_row_def)
  qed
  then show ?thesis by (simp add: filter_empty_conv)
qed

lemma settled_close:
  assumes "settled b s"
  shows "settled False (closeCaptureSession trig now s)"
proof (cases b)
  case True
  with assms obtain cur where cur: "cur \<noteq> 0" "currentCaptureSessionId s = Some cur"
    "map session_id (enabled_sessions s) = [cur]" and p: "pending_inserts s = []"
    by (auto simp add: settled_def split: option.splits)
  from close_some [OF cur(2) cur(1)] close_row_disables [OF cur(3) [unfolded enabled_sessions_def]] p
  show ?thesis by (simp add: settled_def enabled_sessions_def close_pending)
next
  case False
  with assms have n: "currentCaptureSessionId s = None" "enabled_sessions s = []"
    and p: "pending_inserts s = []"
    by (simp_all add: settled_def)
  from close_none [OF n(1)] n(2) p show ?thesis
    by (simp add: settled_def enabled_sessions_def close_pending)
qed

lemma settled_open:
  assumes "settled False s"
  shows "settled True (insert_callback (openCaptureSession trig a now s))"
proof -
  from assms have p: "pending_inserts s = []" and e: "enabled_sessions s = []"
    by (simp_all add: settled_def)
  from e have "map session_id (enabled_sessions (insert_callback (openCaptureSession trig a now s)))
                 = [next_session_id (capture_sessions s)]"
    by (simp add: enabled_sessions_def open_then_callback(1) [OF p] open_fields)
  then show ?thesis
    by (simp add: settled_def open_then_callback [OF p] next_session_id_pos)
qed

lemma settled_enabled: "settled b s \<Longrightarrow> length (enabled_sessions s) \<le> 1"
proof (cases b)
  case True
  assume "settled b s"
  with True obtain cur where "map session_id (enabled_sessions s) = [cur]"
    by (auto simp add: settled_def split: option.splits)
  then have "length (map session_id (enabled_sessions s)) = 1" by simp
  then show ?thesis by simp
next
  case False
  assume "settled b s"
  with False show ?thesis by (simp add: settled_def)
qed

lemma run_sequenced:
  assumes "sequenced b cs" and "settled b s"
  shows "\<exists>b'. settled b' (run_commands cs s)"
  using assms
proof (induction b cs arbitrary: s rule: sequenced.induct)
  case (1 is_open)
  then show ?case by (auto simp add: run_commands_def)
next
  case (2 is_open trig assayId now cs)
  then have nb: "\<not> is_open" and sq: "sequenced True cs" by simp_all
  from "2.prems"(2) nb have "settled False s" by simp
  from settled_open [OF this] have "settled True (insert_callback (openCaptureSession trig assayId now s))" .
  from "2.IH" [OF sq this] show ?case by (simp add: run_commands_def)
next
  case (4 is_open trig now cs)
  then have sq: "sequenced False cs" by simp
  from "4.IH" [OF sq settled_close [OF "4.prems"(2)]] show ?case by (simp add: run_commands_def)
next
  case (5 is_open cs)
  then have sq: "sequenced is_open cs" by simp
  from "5.prems"(2) have "insert_callback s = s"
    by (simp add: settled_def callback_none_pending)
  with "5.IH" [OF sq "5.prems"(2)] show ?case by (simp add: run_commands_def)
qed simp_all

lemma close_row_consistent:
  "consistent_session (close_row cur trig now r) = (session_id r = cur \<or> consistent_session r)"
  by (simp add: close_row_def consistent_session_def)

lemma run_command_consistent:
  "list_all consistent_session (capture_sessions s)
   \<Longrightarrow> list_all consistent_session (capture_sessions (run_command c s))"
proof (cases c)
  case (Open_session tr a t)
  assume "list_all consistent_session (capture_sessions s)"
  then show ?thesis
    by (simp add: Open_session open_fields consistent_session_def)
next
  case (Close_session tr t)
  assume "list_all consistent_session (capture_sessions s)"
  then show ?thesis
    by (auto simp add: Close_session closeCaptureSession_def list_all_iff close_row_consistent
        split: option.splits)
next
  case Insert_callback
  assume "list_all consistent_session (capture_sessions s)"
  then show ?thesis
    by (simp add: Insert_callback insert_callback_def split: list.splits)
qed

lemma run_commands_consistent:
  "list_all consistent_session (capture_sessions s)
   \<Longrightarrow> list_all consistent_session (capture_sessions (run_commands cs s))"
  unfolding run_commands_def
  by (induction cs arbitrary: s) (simp_all add: run_command_consistent)

lemma startup_fields:
  "capture_sessions (startup tbl) = tbl"
  "currentCaptureSessionId (startup tbl) = None"
  "pending_inserts (startup tbl) = []"
  "telemetryCaptureEnabled (startup tbl) = False"
  by (simp_all add: startup_def initial_state_def)

text \<open>
  C3, amended. Take a start-up on a table with no enabled session and only consistent
  rows, and control commands served one at a time (the callback of every open runs
  before the next command) with no open issued while a session is open. At every state
  so reached at most one capture session has status \<^verbatim>\<open>enabled\<close>; a close there leaves
  none enabled; every session row is enabled without a stop time or carries its stop
  time. In any state, \<^verbatim>\<open>openCaptureSession\<close> appends one new enabled row, touches no
  other row and enables capture at once, and, when no other callback is pending, its
  callback makes the new row the current session. A second close in a row changes no
  session row.
\<close>

theorem C3_sessions_when_sequenced:
  assumes "sequenced False cs"
    and "enabled_sessions (startup tbl) = []"
    and "list_all consistent_session tbl"
  shows "length (enabled_sessions (run_commands cs (startup tbl))) \<le> 1
       \<and> enabled_sessions (closeCaptureSession trig now (run_commands cs (startup tbl))) = []
       \<and> list_all consistent_session (capture_sessions (run_commands cs (startup tbl)))
       \<and> capture_sessions (openCaptureSession trig a now s)
           = capture_sessions s
               @ [\<lparr> session_id = next_session_id (capture_sessions s),
                     session_status = ''enabled'', started_at = Some now, stopped_at = None,
                     session_trigger = or_null trig, session_assay_id = or_null a \<rparr>]
       \<and> telemetryCaptureEnabled (openCaptureSession trig a now s)
       \<and> (pending_inserts s = [] \<longrightarrow>
            currentCaptureSessionId (insert_callback (openCaptureSession trig a now s))
              = Some (next_session_id (capture_sessions s)))
       \<and> capture_sessions
            (closeCaptureSession trig now (closeCaptureSession trig' now' s))
           = capture_sessions (closeCaptureSession trig' now' s)"
proof -
  have init: "settled False (startup tbl)"
    using assms(2) by (simp add: settled_def startup_fields)
  from run_sequenced [OF assms(1) init] obtain b
    where b: "settled b (run_commands cs (startup tbl))" by blast
  from settled_enabled [OF b]
  have one: "length (enabled_sessions (run_commands cs (startup tbl))) \<le> 1" .
  from settled_close [OF b, of trig now]
  have none: "enabled_sessions (closeCaptureSession trig now (run_commands cs (startup tbl))) = []"
    by (simp add: settled_def)
  from assms(3) have "list_all consistent_session (capture_sessions (startup tbl))"
    by (simp add: startup_fields)
  from run_commands_consistent [OF this, of cs]
  have cons: "list_all consistent_session (capture_sessions (run_commands cs (startup tbl)))" .
  have twice: "capture_sessions (closeCaptureSession trig now (closeCaptureSession trig' now' s))
           = capture_sessions (closeCaptureSession trig' now' s)"
    by (simp add: closeCaptureSession_def split: option.splits)
  from one none cons twice show ?thesis
    by (simp add: open_fields open_then_callback(2))
qed

text \<open>
  C3, as stated, fails: two opens in a row leave two sessions with status \<^verbatim>\<open>enabled\<close>,
  the first without a stop time, and the second open is not a no-op (it adds a row).
\<close>

theorem C3_reopen_leaves_two_enabled:
  "length (enabled_sessions (run_commands reopen_commands initial_state)) = 2
   \<and> map stopped_at (capture_sessions (run_commands reopen_commands initial_state)) = [None, None]
   \<and> capture_sessions (run_commands reopen_commands initial_state)
        \<noteq> capture_sessions (run_commands [hd reopen_commands] initial_state)"
  by (simp add: reopen_commands_def run_commands_def openCaptureSession_def initial_state_def
      enabled_sessions_def next_session_id_def Let_def)

text \<open>
  C3 (amended) after a restart on a table holding one closed session, at start, stop,
  start: the session of the first start is disabled with its stop time, the session of
  the second start is the only enabled one and the current one; and the callback of an
  open at start-up makes the new session, with id 2, the current one.
\<close>

theorem C3_witness:
  "sequenced False start_stop_start
   \<and> enabled_sessions (startup [closed_earlier]) = []
   \<and> list_all consistent_session [closed_earlier]
   \<and> length (enabled_sessions (run_commands start_stop_start (startup [closed_earlier]))) = 1
   \<and> map session_status
        (capture_sessions (run_commands start_stop_start (startup [closed_earlier])))
        = [''disabled'', ''disabled'', ''enabled'']
   \<and> map stopped_at (capture_sessions (run_commands start_stop_start (startup [closed_earlier])))
        = [Some ''2023-12-31T01:00:00.000Z'', Some ''2024-01-01T01:00:00.000Z'', None]
   \<and> currentCaptureSessionId (run_commands start_stop_start (startup [closed_earlier])) = Some 3
   \<and> pending_inserts (startup [closed_earlier]) = []
   \<and> currentCaptureSessionId
        (insert_callback (openCaptureSession (Some ''assay_start'') None
           ''2024-01-01T00:00:00.000Z'' (startup [closed_earlier]))) = Some 2"
proof -
  have sq: "sequenced False start_stop_start"
    by (simp add: start_stop_start_def)
  have en: "enabled_sessions (startup [closed_earlier]) = []"
    by (simp add: enabled_sessions_def startup_fields closed_earlier_def)
  have co: "list_all consistent_session [closed_earlier]"
    by (simp add: consistent_session_def closed_earlier_def)
  have ev: "map session_status
        (capture_sessions (run_commands start_stop_start (startup [closed_earlier])))
        = [''disabled'', ''disabled'', ''enabled'']"
    "map stopped_at (capture_sessions (run_commands start_stop_start (startup [closed_earlier])))
        = [Some ''2023-12-31T01:00:00.000Z'', Some ''2024-01-01T01:00:00.000Z'', None]"
    "currentCaptureSessionId (run_commands start_stop_start (startup [closed_earlier])) = Some 3"
    by (simp_all add: start_stop_start_def run_commands_def openCaptureSession_def
        insert_callback_def closeCaptureSession_def close_row_def startup_def initial_state_def
        closed_earlier_def next_session_id_def Let_def)
  from ev(1)
  have ge: "length (enabled_sessions (run_commands start_stop_start (startup [closed_earlier])))
              \<ge> 1"
    by (cases "capture_sessions (run_commands start_stop_start (startup [closed_earlier]))")
       (auto simp add: enabled_sessions_def)
  have nid: "next_session_id [closed_earlier] = 2"
    by (simp add: next_session_id_def closed_earlier_def)
  note C = C3_sessions_when_sequenced [OF sq en co,
      where trig = "Some ''assay_start''" and a = None and now = "''2024-01-01T00:00:00.000Z''"
        and s = "startup [closed_earlier]"]
  from C have le: "length (enabled_sessions (run_commands start_stop_start (startup [closed_earlier])))
              \<le> 1"
    by simp
  from C have cur: "currentCaptureSessionId
        (insert_callback (openCaptureSession (Some ''assay_start'') None
           ''2024-01-01T00:00:00.000Z'' (startup [closed_earlier]))) = Some 2"
    by (simp add: startup_fields nid)
  from le ge sq en co ev cur show ?thesis by (simp add: startup_fields)
qed

text \<open>Why the two assumptions are needed. A close that is served before the callback of
  the open before it finds no current session and closes nothing: the session stays
  enabled while capture is off. And after a restart on a table in which an earlier run
  left a session open, one ordinary open gives two enabled sessions.\<close>

lemma close_before_callback_closes_nothing:
  "map session_status (capture_sessions (run_commands close_overtakes_callback (startup [])))
     = [''enabled'']
   \<and> \<not> telemetryCaptureEnabled (run_commands close_overtakes_callback (startup []))
   \<and> currentCaptureSessionId (run_commands close_overtakes_callback (startup [])) = Some 1"
  by (simp add: close_overtakes_callback_def run_commands_def openCaptureSession_def
      insert_callback_def closeCaptureSession_def startup_def initial_state_def
      next_session_id_def Let_def)

lemma open_after_restart_with_open_session:
  "sequenced False [Open_session (Some ''assay_start'') (Some ''Y'') ''2024-01-01T00:00:00.000Z'',
                    Insert_callback]
   \<and> length (enabled_sessions
        (run_commands [Open_session (Some ''assay_start'') (Some ''Y'') ''2024-01-01T00:00:00.000Z'',
                       Insert_callback] (startup [left_open]))) = 2"
  by (simp add: run_commands_def openCaptureSession_def insert_callback_def startup_def
      initial_state_def enabled_sessions_def left_open_def next_session_id_def Let_def)

section \<open>Periodic window exporter\<close>

lemma set_window_rows:
  "set (window_rows a b tbl) = {r \<in> set tbl. in_window a b r}"
  by (simp add: window_rows_def)

text \<open>The query is inclusive at both ends, so two consecutive windows share their
  boundary.\<close>

lemma boundary_row_in_both_windows:
  assumes "r \<in> set tbl" and "row_timestamp r = Some b" and "a \<le> b" and "b \<le> c"
  shows "r \<in> set (window_rows a b tbl) \<and> r \<in> set (window_rows b c tbl)"
  using assms by (simp add: set_window_rows in_window_def)

text \<open>A tick whose export resolves moves the watermark to the clock reading, with or
  without rows; a tick whose export is rejected leaves the state as it was.\<close>

lemma csv_tick_resolved:
  "lastCsvExportAt (csv_tick Env_ok now s) = Some now"
  by (simp add: csv_tick_def exportTelemetryWindowToCSV_def Let_def split: option.splits)

lemma csv_tick_empty_window:
  assumes "lastCsvExportAt s = Some w" and "window_rows w now (telemetry s) = []"
    and "env \<noteq> Db_error"
  shows "csv_tick env now s = s\<lparr> lastCsvExportAt := Some now \<rparr>"
  using assms by (simp add: csv_tick_def exportTelemetryWindowToCSV_def)

lemma csv_tick_db_error: "csv_tick Db_error now s = s"
  by (simp add: csv_tick_def exportTelemetryWindowToCSV_def)

lemma csv_tick_file:
  assumes "lastCsvExportAt s = Some w" and "window_rows w now (telemetry s) \<noteq> []"
  shows "csv_tick Env_ok now s
           = s\<lparr> csv_files := csv_files s
                    @ [\<lparr> file_start = w, file_end = now,
                          file_rows = window_rows w now (telemetry s) \<rparr>],
                 lastCsvExportAt := Some now \<rparr>"
  using assms by (simp add: csv_tick_def exportTelemetryWindowToCSV_def Let_def)

lemma boundary_state_fields:
  "lastCsvExportAt boundary_state = Some ''2024-01-01T00:00:00.000Z''"
  "csv_files boundary_state = []"
  "map row_timestamp (telemetry boundary_state) = [Some ''2024-01-01T00:05:00.000Z'']"
  "length (telemetry boundary_state) = 1"
  by (simp_all add: boundary_state_def scheduleCsvAutoExport_def initial_state_def
      telemetry_row_of_def)

text \<open>
  C6, evaluated. The watermark is 00:00:00.000 and the table holds one row stamped
  00:05:00.000. The tick at 00:05:00.000 writes a file for the window from 00:00 to 00:05
  holding the row; the tick at 00:10:00.000 writes a file for the window from 00:05 to
  00:10 holding the same row again. The windows are contiguous, and the row stamped at
  their common bound is exported in both.
\<close>

theorem C6_boundary_row_exported_twice:
  "map file_start
     (csv_files (csv_tick Env_ok ''2024-01-01T00:10:00.000Z''
        (csv_tick Env_ok ''2024-01-01T00:05:00.000Z'' boundary_state)))
     = [''2024-01-01T00:00:00.000Z'', ''2024-01-01T00:05:00.000Z'']
   \<and> map file_end
     (csv_files (csv_tick Env_ok ''2024-01-01T00:10:00.000Z''
        (csv_tick Env_ok ''2024-01-01T00:05:00.000Z'' boundary_state)))
     = [''2024-01-01T00:05:00.000Z'', ''2024-01-01T00:10:00.000Z'']
   \<and> map file_rows
     (csv_files (csv_tick Env_ok ''2024-01-01T00:10:00.000Z''
        (csv_tick Env_ok ''2024-01-01T00:05:00.000Z'' boundary_state)))
     = [telemetry boundary_state, telemetry boundary_state]
   \<and> length (telemetry boundary_state) = 1"
proof -
  obtain r where tbl: "telemetry boundary_state = [r]"
    and r: "row_timestamp r = Some ''2024-01-01T00:05:00.000Z''"
    by (simp add: boundary_state_def scheduleCsvAutoExport_def initial_state_def
        telemetry_row_of_def)
  have w1: "window_rows ''2024-01-01T00:00:00.000Z'' ''2024-01-01T00:05:00.000Z''
              (telemetry boundary_state) = [r]"
    by (simp add: window_rows_def in_window_def tbl r)
  let ?s1 = "csv_tick Env_ok ''2024-01-01T00:05:00.000Z'' boundary_state"
  have s1: "?s1 = boundary_state\<lparr> csv_files := csv_files boundary_state
                    @ [\<lparr> file_start = ''2024-01-01T00:00:00.000Z'',
                          file_end = ''2024-01-01T00:05:00.000Z'', file_rows = [r] \<rparr>],
                 lastCsvExportAt := Some ''2024-01-01T00:05:00.000Z'' \<rparr>"
    using csv_tick_file [OF boundary_state_fields(1), of "''2024-01-01T00:05:00.000Z''"] w1
    by simp
  have t1: "telemetry ?s1 = [r]" and l1: "lastCsvExportAt ?s1 = Some ''2024-01-01T00:05:00.000Z''"
    by (simp_all add: s1 tbl)
  have w2: "window_rows ''2024-01-01T00:05:00.000Z'' ''2024-01-01T00:10:00.000Z''
              (telemetry ?s1) = [r]"
    unfolding t1 by (simp add: window_rows_def in_window_def r)
  have s2: "csv_files (csv_tick Env_ok ''2024-01-01T00:10:00.000Z'' ?s1)
              = csv_files ?s1 @ [\<lparr> file_start = ''2024-01-01T00:05:00.000Z'',
                          file_end = ''2024-01-01T00:10:00.000Z'', file_rows = [r] \<rparr>]"
    using csv_tick_file [OF l1, of "''2024-01-01T00:10:00.000Z''"] w2 by simp
  show ?thesis
    unfolding s2 by (simp add: s1 tbl boundary_state_fields)
qed

end
